theory Spec2Isabelle
  imports Complex_Main "HOL-Library.Monad_Syntax"
begin

section \<open>Shared data model (types.ts)\<close>

text \<open>
  JavaScript numbers are modelled as mathematical reals: every formula of the
  source is kept operation by operation, rounding of IEEE doubles is not modelled.
  A value that may be \<^verbatim>\<open>null\<close> or \<^verbatim>\<open>undefined\<close> is an \<open>option\<close>.
  A computation that may throw a \<^verbatim>\<open>TypeError\<close> (reading a field of
  \<^verbatim>\<open>undefined\<close>) returns an \<open>option\<close> as well, \<open>None\<close> being the throw.
\<close>

record Landmark =
  lm_x :: real
  lm_y :: real
  lm_z :: real

type_synonym NormalizedLandmarkList = "Landmark list"

record Point =
  pt_x :: real
  pt_y :: real

record Rect =
  rc_x :: real
  rc_y :: real
  rc_w :: real
  rc_h :: real

datatype AppState = IDLE | RESIZING | FROZEN

datatype EffectMode =
  NORMAL | GRID_STRETCH | SLICE_3D | PIXEL_GRID | SHREDDER | SANTA_WALKER | PIXEL_TEXT

text \<open>\<^verbatim>\<open>xs[i]\<close> on a JavaScript array: \<^verbatim>\<open>undefined\<close> out of range.\<close>

definition js_index :: "'a list \<Rightarrow> nat \<Rightarrow> 'a option" where
  "js_index xs i = (if i < length xs then Some (xs ! i) else None)"

text \<open>\<^verbatim>\<open>landmarks[i].y\<close> and \<^verbatim>\<open>landmarks[i].x\<close>: throw when the entry is missing.\<close>

definition lm_y_at :: "NormalizedLandmarkList \<Rightarrow> nat \<Rightarrow> real option" where
  "lm_y_at landmarks i = map_option lm_y (js_index landmarks i)"

definition lm_x_at :: "NormalizedLandmarkList \<Rightarrow> nat \<Rightarrow> real option" where
  "lm_x_at landmarks i = map_option lm_x (js_index landmarks i)"

section \<open>Gesture predicates (utils/gestureUtils.ts)\<close>

definition isPointingUp :: "NormalizedLandmarkList option \<Rightarrow> bool option" where
  "isPointingUp landmarks =
     (case landmarks of
        None \<Rightarrow> Some False
      | Some lms \<Rightarrow>
          if length lms < 21 then Some False
          else do {
            y8 \<leftarrow> lm_y_at lms 8;  y6 \<leftarrow> lm_y_at lms 6;
            y12 \<leftarrow> lm_y_at lms 12; y10 \<leftarrow> lm_y_at lms 10;
            y16 \<leftarrow> lm_y_at lms 16; y14 \<leftarrow> lm_y_at lms 14;
            y20 \<leftarrow> lm_y_at lms 20; y18 \<leftarrow> lm_y_at lms 18;
            let indexUp = y8 < y6;
                middleDown = y12 > y10;
                ringDown = y16 > y14;
                pinkyDown = y20 > y18
            in Some (indexUp \<and> middleDown \<and> ringDown \<and> pinkyDown)
          })"

definition isHandClosed :: "NormalizedLandmarkList option \<Rightarrow> bool option" where
  "isHandClosed landmarks =
     (case landmarks of
        None \<Rightarrow> Some False
      | Some lms \<Rightarrow>
          if length lms < 21 then Some False
          else do {
            y8 \<leftarrow> lm_y_at lms 8;  y6 \<leftarrow> lm_y_at lms 6;
            y12 \<leftarrow> lm_y_at lms 12; y10 \<leftarrow> lm_y_at lms 10;
            y16 \<leftarrow> lm_y_at lms 16; y14 \<leftarrow> lm_y_at lms 14;
            y20 \<leftarrow> lm_y_at lms 20; y18 \<leftarrow> lm_y_at lms 18;
            let indexClosed = y8 > y6;
                middleClosed = y12 > y10;
                ringClosed = y16 > y14;
                pinkyClosed = y20 > y18
            in Some (indexClosed \<and> middleClosed \<and> ringClosed \<and> pinkyClosed)
          })"

definition isPinching :: "NormalizedLandmarkList option \<Rightarrow> bool option" where
  "isPinching landmarks =
     (case landmarks of
        None \<Rightarrow> Some False
      | Some lms \<Rightarrow>
          if length lms < 21 then Some False
          else do {
            x8 \<leftarrow> lm_x_at lms 8; x4 \<leftarrow> lm_x_at lms 4;
            y8 \<leftarrow> lm_y_at lms 8; y4 \<leftarrow> lm_y_at lms 4;
            let dx = x8 - x4;
                dy = y8 - y4;
                dist = sqrt (dx * dx + dy * dy)
            in Some (dist < 0.05)
          })"

definition isVictoryHand :: "NormalizedLandmarkList option \<Rightarrow> bool option" where
  "isVictoryHand landmarks =
     (case landmarks of
        None \<Rightarrow> Some False
      | Some lms \<Rightarrow>
          if length lms < 21 then Some False
          else do {
            y8 \<leftarrow> lm_y_at lms 8;  y6 \<leftarrow> lm_y_at lms 6;
            y12 \<leftarrow> lm_y_at lms 12; y10 \<leftarrow> lm_y_at lms 10;
            y16 \<leftarrow> lm_y_at lms 16; y14 \<leftarrow> lm_y_at lms 14;
            y20 \<leftarrow> lm_y_at lms 20; y18 \<leftarrow> lm_y_at lms 18;
            let indexUp = y8 < y6;
                middleUp = y12 < y10;
                ringDown = y16 > y14;
                pinkyDown = y20 > y18
            in Some (indexUp \<and> middleUp \<and> ringDown \<and> pinkyDown)
          })"


text \<open>Concrete hands used to run the predicates: 21 landmarks given as (x, y) pairs.\<close>

definition mk_hand :: "(real \<times> real) list \<Rightarrow> NormalizedLandmarkList" where
  "mk_hand ps = map (\<lambda>(a, b). \<lparr>lm_x = a, lm_y = b, lm_z = 0\<rparr>) ps"

text \<open>Index finger raised, the other three fingers curled, thumb far from the index tip.\<close>

definition hand_point :: NormalizedLandmarkList where
  "hand_point = mk_hand
     [(0.5, 0.9), (0.4, 0.8), (0.3, 0.7), (0.2, 0.6), (0.1, 0.6),
      (0.5, 0.6), (0.5, 0.5), (0.5, 0.4), (0.5, 0.3),
      (0.6, 0.6), (0.6, 0.5), (0.6, 0.55), (0.6, 0.6),
      (0.7, 0.6), (0.7, 0.5), (0.7, 0.55), (0.7, 0.6),
      (0.8, 0.6), (0.8, 0.5), (0.8, 0.55), (0.8, 0.6)]"

text \<open>The same hand with the thumb tip brought onto the index tip: only x of landmark 4
  and nothing in any y coordinate differs from \<open>hand_point\<close> except the thumb tip's.\<close>

definition hand_point_pinch :: NormalizedLandmarkList where
  "hand_point_pinch = mk_hand
     [(0.5, 0.9), (0.4, 0.8), (0.3, 0.7), (0.2, 0.6), (0.5, 0.3),
      (0.5, 0.6), (0.5, 0.5), (0.5, 0.4), (0.5, 0.3),
      (0.6, 0.6), (0.6, 0.5), (0.6, 0.55), (0.6, 0.6),
      (0.7, 0.6), (0.7, 0.5), (0.7, 0.55), (0.7, 0.6),
      (0.8, 0.6), (0.8, 0.5), (0.8, 0.55), (0.8, 0.6)]"

text \<open>All four fingers curled (tips below their PIP joints), thumb tip on the index tip.\<close>

definition hand_fist_pinch :: NormalizedLandmarkList where
  "hand_fist_pinch = mk_hand
     [(0.5, 0.9), (0.4, 0.8), (0.3, 0.7), (0.2, 0.6), (0.5, 0.55),
      (0.5, 0.6), (0.5, 0.5), (0.5, 0.4), (0.5, 0.55),
      (0.6, 0.6), (0.6, 0.5), (0.6, 0.55), (0.6, 0.6),
      (0.7, 0.6), (0.7, 0.5), (0.7, 0.55), (0.7, 0.6),
      (0.8, 0.6), (0.8, 0.5), (0.8, 0.55), (0.8, 0.6)]"



section \<open>Time-slice camera: per-frame callback (App.tsx, onResults)\<close>

text \<open>
  The detector result handed to the callback. The image is opaque; only its identity and
  its optional \<^verbatim>\<open>width\<close>/\<^verbatim>\<open>height\<close> are used.
\<close>

record Results =
  image_id :: nat
  image_width :: "real option"
  image_height :: "real option"
  multiHandLandmarks :: "NormalizedLandmarkList list option"

text \<open>\<^verbatim>\<open>v || d\<close> on a number that may be undefined: the default replaces undefined and 0.\<close>

definition js_or :: "real option \<Rightarrow> real \<Rightarrow> real" where
  "js_or v d = (case v of None \<Rightarrow> d | Some w \<Rightarrow> if w = 0 then d else w)"

text \<open>The placement of the video frame on the canvas, computed at the top of onResults.\<close>

record DrawGeom =
  offsetX :: real
  offsetY :: real
  drawW :: real
  drawH :: real

definition drawGeom :: "real \<Rightarrow> real \<Rightarrow> Results \<Rightarrow> real \<Rightarrow> DrawGeom" where
  "drawGeom canvasW canvasH results zoomLevel =
     (let imgW = js_or (image_width results) 1280;
          imgH = js_or (image_height results) 720;
          baseScale = max (canvasW / imgW) (canvasH / imgH);
          zoom = zoomLevel;
          scale = baseScale * zoom;
          dW = imgW * scale;
          dH = imgH * scale
      in \<lparr>offsetX = (canvasW - dW) / 2, offsetY = (canvasH - dH) / 2,
          drawW = dW, drawH = dH\<rparr>)"

definition getScreenCoord :: "DrawGeom \<Rightarrow> real \<Rightarrow> real \<Rightarrow> Point" where
  "getScreenCoord g normalizedX normalizedY =
     \<lparr>pt_x = offsetX g + normalizedX * drawW g,
      pt_y = offsetY g + normalizedY * drawH g\<rparr>"

definition lerp :: "real \<Rightarrow> real \<Rightarrow> real \<Rightarrow> real" where
  "lerp start endv factor = start + (endv - start) * factor"

text \<open>The off-screen canvas holding the frozen snapshot: its size and the image last
  drawn on it (with the geometry it was drawn at), if any.\<close>

record FrozenCanvas =
  fc_width :: real
  fc_height :: real
  fc_content :: "(nat \<times> DrawGeom) option"

text \<open>
  The refs of the component that the callback reads and writes. Timestamps are
  milliseconds as returned by \<^verbatim>\<open>Date.now()\<close>.
\<close>

record AppRefs =
  stateRef :: AppState
  rectRef :: Rect
  effectModeRef :: EffectMode
  zoomLevelRef :: real
  resetStartTimeRef :: "int option"
  effectSwitchStartTimeRef :: "int option"
  canvasWidth :: real
  canvasHeight :: real
  frozenCanvasRef :: "FrozenCanvas option"

text \<open>
  What one invocation of the callback receives from outside: the detector results, the
  displayed size of the canvas (already floored), and the readings of \<^verbatim>\<open>Date.now()\<close> at
  its four call sites (start and elapsed reading of the reset timer, start and elapsed
  reading of the effect-switch timer).
\<close>

record Frame =
  results :: Results
  displayWidth :: real
  displayHeight :: real
  nowResetStart :: int
  nowResetElapsed :: int
  nowSwitchStart :: int
  nowSwitchElapsed :: int

text \<open>The discrete actions a callback performs, in the order it performs them.\<close>

datatype Action =
    CallResetSystem
  | CallHandleEffectSwitch EffectMode
  | CaptureFrozenFrame

text \<open>The refs as the component creates them; an HTML canvas starts at 300 x 150 and
  the off-screen canvas does not exist yet.\<close>

definition initialRefs :: AppRefs where
  "initialRefs =
     \<lparr>stateRef = IDLE, rectRef = \<lparr>rc_x = 0, rc_y = 0, rc_w = 0, rc_h = 0\<rparr>,
      effectModeRef = NORMAL, zoomLevelRef = 1,
      resetStartTimeRef = None, effectSwitchStartTimeRef = None,
      canvasWidth = 300, canvasHeight = 150, frozenCanvasRef = None\<rparr>"

definition resetSystem :: "AppRefs \<Rightarrow> AppRefs" where
  "resetSystem s =
     s\<lparr>stateRef := IDLE,
       rectRef := \<lparr>rc_x = 0, rc_y = 0, rc_w = 0, rc_h = 0\<rparr>,
       effectModeRef := NORMAL,
       resetStartTimeRef := None,
       effectSwitchStartTimeRef := None,
       frozenCanvasRef := map_option (\<lambda>c. c\<lparr>fc_content := None\<rparr>) (frozenCanvasRef s)\<rparr>"

definition handleEffectSwitch :: "EffectMode \<Rightarrow> AppRefs \<Rightarrow> AppRefs" where
  "handleEffectSwitch mode s = s\<lparr>effectModeRef := mode\<rparr>"

text \<open>Matching the canvas buffer to the display size; setting a canvas's width or height
  clears it.\<close>

definition resizeCanvas :: "AppRefs \<Rightarrow> Frame \<Rightarrow> AppRefs" where
  "resizeCanvas s f =
     (if canvasWidth s \<noteq> displayWidth f \<or> canvasHeight s \<noteq> displayHeight f
      then s\<lparr>canvasWidth := displayWidth f, canvasHeight := displayHeight f,
             frozenCanvasRef := Some \<lparr>fc_width = displayWidth f,
                                     fc_height = displayHeight f, fc_content = None\<rparr>\<rparr>
      else s)"

definition frameGeom :: "AppRefs \<Rightarrow> Frame \<Rightarrow> DrawGeom" where
  "frameGeom s f = drawGeom (canvasWidth s) (canvasHeight s) (results f) (zoomLevelRef s)"

text \<open>\<^verbatim>\<open>hands && hands.length === 2\<close>\<close>

definition twoHands :: "NormalizedLandmarkList list option \<Rightarrow> bool" where
  "twoHands hands = (case hands of None \<Rightarrow> False | Some hs \<Rightarrow> length hs = 2)"

text \<open>\<^verbatim>\<open>p(hands[0]) && p(hands[1])\<close>, the second operand evaluated only if the first holds.\<close>

definition bothHands ::
  "(NormalizedLandmarkList option \<Rightarrow> bool option) \<Rightarrow> NormalizedLandmarkList list \<Rightarrow> bool option"
where
  "bothHands p hs = do {
     a \<leftarrow> p (js_index hs 0);
     if a then p (js_index hs 1) else Some False
   }"

definition the_hands :: "NormalizedLandmarkList list option \<Rightarrow> NormalizedLandmarkList list" where
  "the_hands hands = (case hands of None \<Rightarrow> [] | Some hs \<Rightarrow> hs)"

text \<open>First block of the state machine: IDLE to RESIZING.\<close>

definition idleStep :: "AppRefs \<Rightarrow> Frame \<Rightarrow> AppRefs option" where
  "idleStep s f =
     (let hands = multiHandLandmarks (results f) in
      if stateRef s = IDLE \<and> twoHands hands then do {
        b \<leftarrow> bothHands isPointingUp (the_hands hands);
        Some (if b then s\<lparr>stateRef := RESIZING\<rparr> else s)
      } else Some s)"

text \<open>Second block, first half: while RESIZING the selection rectangle follows the two
  index tips \<open>t0\<close>, \<open>t1\<close>, snapping on the first frame and smoothed afterwards.\<close>

definition followTips :: "AppRefs \<Rightarrow> DrawGeom \<Rightarrow> Landmark \<Rightarrow> Landmark \<Rightarrow> AppRefs" where
  "followTips s g t0 t1 =
     (let p1 = getScreenCoord g (lm_x t0) (lm_y t0);
          p2 = getScreenCoord g (lm_x t1) (lm_y t1);
          tx = min (pt_x p1) (pt_x p2);
          ty = min (pt_y p1) (pt_y p2);
          tw = \<bar>pt_x p1 - pt_x p2\<bar>;
          th = \<bar>pt_y p1 - pt_y p2\<bar>;
          smoothFactor = 0.4;
          r = rectRef s
      in if rc_w r = 0 \<and> rc_h r = 0
         then s\<lparr>rectRef := \<lparr>rc_x = tx, rc_y = ty, rc_w = tw, rc_h = th\<rparr>\<rparr>
         else s\<lparr>rectRef := \<lparr>rc_x = lerp (rc_x r) tx smoothFactor,
                            rc_y = lerp (rc_y r) ty smoothFactor,
                            rc_w = lerp (rc_w r) tw smoothFactor,
                            rc_h = lerp (rc_h r) th smoothFactor\<rparr>\<rparr>)"

text \<open>Second block, second half: the double pinch freezes and, if the off-screen canvas
  exists, draws the current image on it.\<close>

definition freeze :: "AppRefs \<Rightarrow> Frame \<Rightarrow> DrawGeom \<Rightarrow> AppRefs \<times> Action list" where
  "freeze s f g =
     (case frozenCanvasRef s of
        None \<Rightarrow> (s\<lparr>stateRef := FROZEN\<rparr>, [])
      | Some c \<Rightarrow>
          (s\<lparr>stateRef := FROZEN,
             frozenCanvasRef := Some (c\<lparr>fc_content := Some (image_id (results f), g)\<rparr>)\<rparr>,
           [CaptureFrozenFrame]))"

definition resizingStep :: "AppRefs \<Rightarrow> Frame \<Rightarrow> (AppRefs \<times> Action list) option" where
  "resizingStep s f =
     (let hands = multiHandLandmarks (results f); g = frameGeom s f in
      if stateRef s = RESIZING \<and> twoHands hands then do {
        h0 \<leftarrow> js_index (the_hands hands) 0;
        t0 \<leftarrow> js_index h0 8;
        h1 \<leftarrow> js_index (the_hands hands) 1;
        t1 \<leftarrow> js_index h1 8;
        let s1 = followTips s g t0 t1;
        b \<leftarrow> bothHands isPinching (the_hands hands);
        Some (if b then freeze s1 f g else (s1, []))
      } else Some (s, []))"

text \<open>\<^verbatim>\<open>hands.some(hand => isVictoryHand(hand))\<close> for a non-empty hands array.\<close>

definition isVictory :: "NormalizedLandmarkList list option \<Rightarrow> bool option" where
  "isVictory hands =
     (case hands of
        None \<Rightarrow> Some False
      | Some hs \<Rightarrow>
          if length hs > 0
          then map_option (\<lambda>bs. \<exists>b \<in> set bs. b) (those (map (\<lambda>h. isVictoryHand (Some h)) hs))
          else Some False)"

definition isResetGesture :: "NormalizedLandmarkList list option \<Rightarrow> bool option" where
  "isResetGesture hands =
     (case hands of
        None \<Rightarrow> Some False
      | Some hs \<Rightarrow> if length hs = 2 then bothHands isHandClosed hs else Some False)"

text \<open>\<^verbatim>\<open>if (!ref.current) ref.current = Date.now()\<close>: null and 0 are both falsy.\<close>

definition startOr :: "int option \<Rightarrow> int \<Rightarrow> int" where
  "startOr ref now = (case ref of None \<Rightarrow> now | Some t \<Rightarrow> if t = 0 then now else t)"

text \<open>The cycle of effects walked by the victory gesture.\<close>

fun nextMode :: "EffectMode \<Rightarrow> EffectMode" where
  "nextMode NORMAL = GRID_STRETCH"
| "nextMode GRID_STRETCH = SLICE_3D"
| "nextMode SLICE_3D = PIXEL_GRID"
| "nextMode PIXEL_GRID = SHREDDER"
| "nextMode SHREDDER = SANTA_WALKER"
| "nextMode SANTA_WALKER = PIXEL_TEXT"
| "nextMode PIXEL_TEXT = NORMAL"

text \<open>Reset logic: both fists held for more than 1500 ms.\<close>

definition resetLogic :: "bool \<Rightarrow> AppRefs \<Rightarrow> Frame \<Rightarrow> AppRefs \<times> Action list" where
  "resetLogic gesture s f =
     (if gesture then
        (let start = startOr (resetStartTimeRef s) (nowResetStart f);
             s1 = s\<lparr>resetStartTimeRef := Some start\<rparr>;
             elapsed = nowResetElapsed f - start
         in if elapsed > 1500
            then ((resetSystem s1)\<lparr>resetStartTimeRef := None\<rparr>, [CallResetSystem])
            else (s1, []))
      else (s\<lparr>resetStartTimeRef := None\<rparr>, []))"

text \<open>Effect-switch logic: victory sign held while FROZEN for more than 2000 ms.\<close>

definition effectSwitchLogic :: "bool \<Rightarrow> AppRefs \<Rightarrow> Frame \<Rightarrow> AppRefs \<times> Action list" where
  "effectSwitchLogic victory s f =
     (if stateRef s = FROZEN \<and> victory then
        (let start = startOr (effectSwitchStartTimeRef s) (nowSwitchStart f);
             s1 = s\<lparr>effectSwitchStartTimeRef := Some start\<rparr>;
             elapsed = nowSwitchElapsed f - start
         in if elapsed > 2000
            then ((handleEffectSwitch (nextMode (effectModeRef s1)) s1)
                     \<lparr>effectSwitchStartTimeRef := None\<rparr>,
                  [CallHandleEffectSwitch (nextMode (effectModeRef s1))])
            else (s1, []))
      else (s\<lparr>effectSwitchStartTimeRef := None\<rparr>, []))"

text \<open>
  The callback, restricted to the refs above, for a callback that finds its canvas and 2d
  context. Drawing and the per-effect updates between the state machine and the
  post-render logic write none of these refs (the effects are modelled on their own
  below); on hands with the 21 landmarks the detector delivers they do not throw. The
  victory flag is computed before the state machine, the reset gesture after rendering,
  as in the source.
\<close>

definition onResults :: "AppRefs \<Rightarrow> Frame \<Rightarrow> (AppRefs \<times> Action list) option" where
  "onResults s f = do {
     let s0 = resizeCanvas s f;
     let hands = multiHandLandmarks (results f);
     victory \<leftarrow> isVictory hands;
     s1 \<leftarrow> idleStep s0 f;
     (s2, a2) \<leftarrow> resizingStep s1 f;
     gesture \<leftarrow> isResetGesture hands;
     let (s3, a3) = resetLogic gesture s2 f;
     let (s4, a4) = effectSwitchLogic victory s3 f;
     Some (s4, a2 @ a3 @ a4)
   }"

text \<open>Running the callback over a sequence of frames, collecting the actions per frame.\<close>

fun runFrames :: "AppRefs \<Rightarrow> Frame list \<Rightarrow> (AppRefs \<times> Action list list) option" where
  "runFrames s [] = Some (s, [])"
| "runFrames s (f # fs) =
     (case onResults s f of
        None \<Rightarrow> None
      | Some (s', a) \<Rightarrow>
          (case runFrames s' fs of None \<Rightarrow> None | Some (s'', as) \<Rightarrow> Some (s'', a # as)))"

section \<open>Tear face filter: coordinate mapper and physics hooks (ARCanvas.tsx)\<close>

definition L_EYE :: nat where "L_EYE = 145"
definition L_CHEEK :: nat where "L_CHEEK = 205"
definition L_DROP :: nat where "L_DROP = 136"
definition R_EYE :: nat where "R_EYE = 374"
definition R_CHEEK :: nat where "R_CHEEK = 425"
definition R_DROP :: nat where "R_DROP = 365"

definition INDEX_FINGER_TIP :: nat where "INDEX_FINGER_TIP = 8"
definition INDEX_FINGER_PIP :: nat where "INDEX_FINGER_PIP = 6"
definition MIDDLE_FINGER_TIP :: nat where "MIDDLE_FINGER_TIP = 12"
definition MIDDLE_FINGER_PIP :: nat where "MIDDLE_FINGER_PIP = 10"
definition RING_FINGER_TIP :: nat where "RING_FINGER_TIP = 16"
definition RING_FINGER_PIP :: nat where "RING_FINGER_PIP = 14"
definition PINKY_TIP :: nat where "PINKY_TIP = 20"
definition PINKY_PIP :: nat where "PINKY_PIP = 18"

record AppSettings =
  st_size :: real
  st_speed :: real
  st_bounce :: real

datatype TearState = sliding | falling | rewinding

datatype Side = left_side | right_side

record TearPluginData =
  pl_state :: TearState
  pl_side :: Side
  pl_progress :: real
  pl_pathOffset :: real
  pl_currentSize :: real
  pl_origin :: "Point option"
  pl_rewindStartTime :: "int option"

text \<open>
  The fields of a physics body that the hooks read or write. The engine's setters
  (\<^verbatim>\<open>Body.setPosition\<close>, \<^verbatim>\<open>Body.setVelocity\<close>, \<^verbatim>\<open>Body.setAngularVelocity\<close>) are
  modelled as assignments to the field, \<^verbatim>\<open>Body.applyForce\<close> at the body's own position
  as adding to the accumulated force.
\<close>

record TearBody =
  isStatic :: bool
  restitution :: real
  isSensor :: bool
  position :: Point
  velocity :: Point
  angularVelocity :: real
  force :: Point
  plugin :: TearPluginData
  customText :: "string option"
  baseFontSize :: real

record Size =
  sz_width :: real
  sz_height :: real

record LastInteract =
  li_element :: "nat option"
  li_startTime :: real

text \<open>The refs and engine state of the component. Buttons are identified by a number.\<close>

record ARRefs =
  dimensionsRef :: Size
  videoDimensionsRef :: Size
  ar_zoomLevelRef :: real
  faceLandmarksRef :: "Landmark list option"
  handLandmarksRef :: "Landmark list list option"
  isCameraOnRef :: bool
  settingsRef :: AppSettings
  lastInteractRef :: LastInteract
  lastSpawnTimeRef :: int
  textQueueRef :: "string list"
  mousePosition :: Point
  gravity_y :: real
  bodies :: "TearBody list"
  textConsumed :: nat

definition getMappedCoords :: "ARRefs \<Rightarrow> real \<Rightarrow> real \<Rightarrow> bool \<Rightarrow> Point" where
  "getMappedCoords s nx ny mirrorX =
     (let cW = sz_width (dimensionsRef s); cH = sz_height (dimensionsRef s);
          vW = sz_width (videoDimensionsRef s); vH = sz_height (videoDimensionsRef s);
          zoom = ar_zoomLevelRef s;
          scale = max (cW / vW) (cH / vH);
          targetW = vW * scale;
          targetH = vH * scale;
          offX = (cW - targetW) / 2;
          offY = (cH - targetH) / 2;
          px = (if mirrorX then 1 - nx else nx);
          ucX = offX + px * targetW;
          ucY = offY + ny * targetH;
          finalX = (cW / 2) + (ucX - cW / 2) * zoom;
          finalY = (cH / 2) + (ucY - cH / 2) * zoom
      in \<lparr>pt_x = finalX, pt_y = finalY\<rparr>)"

text \<open>
  The "cover" scale-and-center formula as the specification words it, as a function of
  canvas size, video size, zoom, mirror flag and the normalized point only.
\<close>

definition cover_map_spec ::
  "real \<Rightarrow> real \<Rightarrow> real \<Rightarrow> real \<Rightarrow> real \<Rightarrow> bool \<Rightarrow> real \<Rightarrow> real \<Rightarrow> Point"
where
  "cover_map_spec canvasW canvasH videoW videoH zoom mirror nx ny =
     (let scale = max (canvasW / videoW) (canvasH / videoH);
          targetW = videoW * scale;
          targetH = videoH * scale;
          offX = (canvasW - targetW) / 2;
          offY = (canvasH - targetH) / 2;
          x = (if mirror then 1 - nx else nx);
          pointX = offX + x * targetW;
          pointY = offY + ny * targetH;
          centerX = canvasW / 2;
          centerY = canvasH / 2
      in \<lparr>pt_x = centerX + (pointX - centerX) * zoom,
          pt_y = centerY + (pointY - centerY) * zoom\<rparr>)"

text \<open>What happens to one body in a physics step: it stays (changed) or leaves the world.\<close>

datatype BodyOutcome = Kept TearBody | Removed

definition setFalling :: "TearBody \<Rightarrow> TearBody" where
  "setFalling body = body\<lparr>plugin := (plugin body)\<lparr>pl_state := falling\<rparr>, isSensor := False\<rparr>"

text \<open>The three face landmarks a tear follows, when the camera is on and all are there.\<close>

definition facePath :: "ARRefs \<Rightarrow> Side \<Rightarrow> (Landmark \<times> Landmark \<times> Landmark) option" where
  "facePath s side =
     (if isCameraOnRef s then
        (case faceLandmarksRef s of
           None \<Rightarrow> None
         | Some currentFaceLandmarks \<Rightarrow>
             (let isLeft = (side = left_side) in
              case (js_index currentFaceLandmarks (if isLeft then L_EYE else R_EYE),
                    js_index currentFaceLandmarks (if isLeft then L_CHEEK else R_CHEEK),
                    js_index currentFaceLandmarks (if isLeft then L_DROP else R_DROP)) of
                (Some p0Raw, Some p1Raw, Some p2Raw) \<Rightarrow> Some (p0Raw, p1Raw, p2Raw)
              | _ \<Rightarrow> None))
      else None)"

text \<open>A. Sliding on the face. \<open>rnd1\<close>, \<open>rnd2\<close> are the two \<^verbatim>\<open>Math.random()\<close> draws.\<close>

definition slidingLogic :: "ARRefs \<Rightarrow> real \<Rightarrow> real \<Rightarrow> TearBody \<Rightarrow> TearBody" where
  "slidingLogic s rnd1 rnd2 body =
     (if pl_state (plugin body) = sliding then
        (case facePath s (pl_side (plugin body)) of
           Some (p0Raw, p1Raw, p2Raw) \<Rightarrow>
             (let p0 = getMappedCoords s (lm_x p0Raw) (lm_y p0Raw) True;
                  p1 = getMappedCoords s (lm_x p1Raw) (lm_y p1Raw) True;
                  p2 = getMappedCoords s (lm_x p2Raw) (lm_y p2Raw) True;
                  t = pl_progress (plugin body);
                  it = 1 - t;
                  bx = (it * it * pt_x p0) + (2 * it * t * pt_x p1) + (t * t * pt_x p2);
                  by = (it * it * pt_y p0) + (2 * it * t * pt_y p1) + (t * t * pt_y p2);
                  b1 = body\<lparr>position := \<lparr>pt_x = bx + pl_pathOffset (plugin body), pt_y = by\<rparr>,
                            velocity := \<lparr>pt_x = 0, pt_y = 0\<rparr>,
                            angularVelocity := 0\<rparr>;
                  progressSpeed = 0.01 + (t * 0.03);
                  b2 = b1\<lparr>plugin := (plugin b1)\<lparr>pl_progress := t + progressSpeed\<rparr>\<rparr>
              in if pl_progress (plugin b2) \<ge> 1.0
                 then (setFalling b2)\<lparr>velocity := \<lparr>pt_x = (rnd1 - 0.5) * 2.0,
                                                    pt_y = 5 + rnd2 * 2\<rparr>\<rparr>
                 else b2)
         | None \<Rightarrow> setFalling body)
      else body)"

text \<open>B. Falling: repulsion from the mouse and from every mapped index finger tip.\<close>

definition repel :: "TearBody \<Rightarrow> Point \<Rightarrow> TearBody" where
  "repel body pt =
     (let dx = pt_x (position body) - pt_x pt;
          dy = pt_y (position body) - pt_y pt;
          distSq = dx * dx + dy * dy
      in if distSq < 10000 \<and> distSq > 0
         then body\<lparr>force := \<lparr>pt_x = pt_x (force body) + (dx / sqrt distSq) * 0.005,
                              pt_y = pt_y (force body) + (dy / sqrt distSq) * 0.005\<rparr>\<rparr>
         else body)"

definition fallingLogic :: "Point list \<Rightarrow> TearBody \<Rightarrow> TearBody" where
  "fallingLogic repulsionPoints body =
     (if pl_state (plugin body) = falling then foldl repel body repulsionPoints else body)"

definition flyTowards :: "TearBody \<Rightarrow> real \<Rightarrow> real \<Rightarrow> real \<Rightarrow> real \<Rightarrow> TearBody" where
  "flyTowards body dx dy d flySpeed =
     body\<lparr>velocity := \<lparr>pt_x = (dx / d) * flySpeed, pt_y = (dy / d) * flySpeed\<rparr>,
          angularVelocity := 0\<rparr>"

text \<open>Rewind: the body travels back along the face path to the eye, or to its origin.\<close>

definition rewindLogic :: "ARRefs \<Rightarrow> int \<Rightarrow> TearBody \<Rightarrow> BodyOutcome" where
  "rewindLogic s now body =
     (let pl = plugin body; speed = st_speed (settingsRef s) in
      if (case pl_rewindStartTime pl of None \<Rightarrow> False | Some t \<Rightarrow> t \<noteq> 0 \<and> now < t)
      then Kept (body\<lparr>velocity := \<lparr>pt_x = 0, pt_y = 0\<rparr>, angularVelocity := 0\<rparr>)
      else
        (case facePath s (pl_side pl) of
           Some (p0Raw, p1Raw, p2Raw) \<Rightarrow>
             (let p0 = getMappedCoords s (lm_x p0Raw) (lm_y p0Raw) True;
                  p1 = getMappedCoords s (lm_x p1Raw) (lm_y p1Raw) True;
                  p2 = getMappedCoords s (lm_x p2Raw) (lm_y p2Raw) True
              in if pl_progress pl \<ge> 1.0 then
                   (let chinX = pt_x p2 + pl_pathOffset pl;
                        chinY = pt_y p2;
                        dx = chinX - pt_x (position body);
                        dy = chinY - pt_y (position body);
                        distToChin = sqrt (dx * dx + dy * dy);
                        flySpeed = speed * 20
                    in if distToChin < flySpeed * 1.5
                       then Kept (body\<lparr>plugin := pl\<lparr>pl_progress := 0.99\<rparr>\<rparr>)
                       else Kept (flyTowards body dx dy distToChin flySpeed))
                 else
                   (let decrement = 0.04 * speed;
                        t = pl_progress pl - decrement;
                        b1 = body\<lparr>plugin := pl\<lparr>pl_progress := t\<rparr>\<rparr>
                    in if t \<le> 0 then Removed
                       else
                         (let it = 1 - t;
                              bx = (it * it * pt_x p0) + (2 * it * t * pt_x p1) + (t * t * pt_x p2);
                              by = (it * it * pt_y p0) + (2 * it * t * pt_y p1) + (t * t * pt_y p2)
                          in Kept (b1\<lparr>position := \<lparr>pt_x = bx + pl_pathOffset pl, pt_y = by\<rparr>,
                                      velocity := \<lparr>pt_x = 0, pt_y = 0\<rparr>,
                                      angularVelocity := 0\<rparr>))))
         | None \<Rightarrow>
             (case pl_origin pl of
                Some origin \<Rightarrow>
                  (let dx = pt_x origin - pt_x (position body);
                       dy = pt_y origin - pt_y (position body);
                       distToOrigin = sqrt (dx * dx + dy * dy);
                       flySpeed = speed * 25
                   in if distToOrigin < flySpeed then Removed
                      else Kept (flyTowards body dx dy distToOrigin flySpeed))
              | None \<Rightarrow> Removed)))"

text \<open>2. Tear logic for one body of the world.\<close>

definition tearLogic ::
  "ARRefs \<Rightarrow> int \<Rightarrow> Point list \<Rightarrow> real \<Rightarrow> real \<Rightarrow> TearBody \<Rightarrow> BodyOutcome"
where
  "tearLogic s now repulsionPoints rnd1 rnd2 body =
     (if isStatic body then Kept body
      else
        (let b0 = body\<lparr>restitution := st_bounce (settingsRef s)\<rparr> in
         if pl_state (plugin b0) = rewinding then rewindLogic s now b0
         else Kept (fallingLogic repulsionPoints (slidingLogic s rnd1 rnd2 b0))))"

text \<open>1. Repulsion points: the mouse, then the mapped index tip of every detected hand.\<close>

definition repulsionPointsOf :: "ARRefs \<Rightarrow> Point list" where
  "repulsionPointsOf s =
     mousePosition s #
     (if isCameraOnRef s then
        (case handLandmarksRef s of
           None \<Rightarrow> []
         | Some currentHandLandmarks \<Rightarrow>
             concat (map (\<lambda>hand. case js_index hand INDEX_FINGER_TIP of
                                     None \<Rightarrow> []
                                   | Some indexTip \<Rightarrow>
                                       [getMappedCoords s (lm_x indexTip) (lm_y indexTip) True])
                         currentHandLandmarks))
      else [])"

text \<open>
  The random draws of one physics step: two per body (by position in the world) and
  three for the spawn (side, x offset without camera, path offset).
\<close>

record StepRandom =
  rnd_body :: "nat \<Rightarrow> real \<times> real"
  rnd_side :: real
  rnd_x :: real
  rnd_offset :: real

definition outcomes_kept :: "BodyOutcome list \<Rightarrow> TearBody list" where
  "outcomes_kept os = concat (map (\<lambda>oc. case oc of Kept b \<Rightarrow> [b] | Removed \<Rightarrow> []) os)"

text \<open>3. Spawning of the next character of the queue.\<close>

definition spawnLogic :: "int \<Rightarrow> StepRandom \<Rightarrow> ARRefs \<Rightarrow> ARRefs" where
  "spawnLogic now rnd s =
     (let spawnInterval = 35 in
      if length (textQueueRef s) > 0 \<and> now - lastSpawnTimeRef s > spawnInterval then
        (let char = hd (textQueueRef s);
             side = (if rnd_side rnd > 0.5 then left_side else right_side);
             winW = sz_width (dimensionsRef s);
             camOn = isCameraOnRef s;
             currentSettings = settingsRef s;
             spawnPos =
               (if camOn \<and> faceLandmarksRef s \<noteq> None then
                  (case faceLandmarksRef s of
                     None \<Rightarrow> None
                   | Some fl \<Rightarrow>
                       (case js_index fl (if side = left_side then L_EYE else R_EYE) of
                          None \<Rightarrow> None
                        | Some eye \<Rightarrow> Some (getMappedCoords s (lm_x eye) (lm_y eye) True)))
                else if \<not> camOn then
                  Some \<lparr>pt_x = winW / 2 + (rnd_x rnd - 0.5) * 200, pt_y = - 50\<rparr>
                else None)
         in case spawnPos of
              None \<Rightarrow> s
            | Some pos \<Rightarrow>
                (let tearBody =
                       \<lparr>isStatic = False,
                        restitution = st_bounce currentSettings,
                        isSensor = camOn,
                        position = pos,
                        velocity = \<lparr>pt_x = 0, pt_y = 0\<rparr>,
                        angularVelocity = 0,
                        force = \<lparr>pt_x = 0, pt_y = 0\<rparr>,
                        plugin = \<lparr>pl_state = (if camOn then sliding else falling),
                                  pl_side = side,
                                  pl_progress = 0,
                                  pl_pathOffset = (rnd_offset rnd - 0.5) * 10,
                                  pl_currentSize = st_size currentSettings,
                                  pl_origin = Some \<lparr>pt_x = pt_x pos, pt_y = pt_y pos\<rparr>,
                                  pl_rewindStartTime = None\<rparr>,
                        customText = Some char,
                        baseFontSize = st_size currentSettings\<rparr>
                 in s\<lparr>lastSpawnTimeRef := now,
                      bodies := bodies s @ [tearBody],
                      textConsumed := textConsumed s + 1\<rparr>))
      else s)"

text \<open>The \<^verbatim>\<open>beforeUpdate\<close> hook of the physics engine, run once per physics frame.\<close>

definition beforeUpdate :: "int \<Rightarrow> StepRandom \<Rightarrow> ARRefs \<Rightarrow> ARRefs" where
  "beforeUpdate now rnd s =
     (let s1 = s\<lparr>gravity_y := st_speed (settingsRef s)\<rparr>;
          repulsionPoints = repulsionPointsOf s1;
          outcomes = map (\<lambda>(k, body). tearLogic s1 now repulsionPoints
                                          (fst (rnd_body rnd k)) (snd (rnd_body rnd k)) body)
                         (enumerate 0 (bodies s1));
          s2 = s1\<lparr>bodies := outcomes_kept outcomes\<rparr>
      in spawnLogic now rnd s2)"

section \<open>Tear face filter: pointing-finger interaction (ARCanvas.tsx, afterRender)\<close>

datatype SettingKey = KeySize | KeySpeed | KeyBounce

text \<open>A range input found under the finger: its \<^verbatim>\<open>data-setting-key\<close>, bounding rectangle
  and numeric attributes.\<close>

record Slider =
  sl_key :: "SettingKey option"
  sl_left :: real
  sl_bottom :: real
  sl_width :: real
  sl_height :: real
  sl_min :: real
  sl_max :: real
  sl_step :: real

text \<open>What the handler learns about the element under the finger: the range input it is
  or contains, and the button it is or lies in.\<close>

record DomElement =
  el_slider :: "Slider option"
  el_button :: "nat option"

record RenderEnv =
  perfNow :: real
  containerRect :: "(real \<times> real) option"
  elementFromPoint :: "real \<Rightarrow> real \<Rightarrow> DomElement option"

datatype UiAction = ClickButton nat | CallOnSettingsChange AppSettings

definition dist :: "Landmark \<Rightarrow> Landmark \<Rightarrow> real" where
  "dist a b = sqrt ((lm_x a - lm_x b)\<^sup>2 + (lm_y a - lm_y b)\<^sup>2)"

definition getScreenCoords :: "RenderEnv \<Rightarrow> real \<Rightarrow> real \<Rightarrow> Point" where
  "getScreenCoords env cx cy =
     (case containerRect env of
        None \<Rightarrow> \<lparr>pt_x = cx, pt_y = cy\<rparr>
      | Some (rleft, rtop) \<Rightarrow> \<lparr>pt_x = cx + rleft, pt_y = cy + rtop\<rparr>)"

text \<open>\<^verbatim>\<open>Math.round\<close>: the nearest integer, halves rounded up.\<close>

definition js_round :: "real \<Rightarrow> real" where
  "js_round v = of_int \<lfloor>v + 1 / 2\<rfloor>"

definition setSetting :: "AppSettings \<Rightarrow> SettingKey \<Rightarrow> real \<Rightarrow> AppSettings" where
  "setSetting st key v =
     (case key of KeySize \<Rightarrow> st\<lparr>st_size := v\<rparr>
                | KeySpeed \<Rightarrow> st\<lparr>st_speed := v\<rparr>
                | KeyBounce \<Rightarrow> st\<lparr>st_bounce := v\<rparr>)"

definition sliderLogic :: "ARRefs \<Rightarrow> Point \<Rightarrow> DomElement \<Rightarrow> UiAction list" where
  "sliderLogic s screenPos el =
     (case el_slider el of
        None \<Rightarrow> []
      | Some inputEl \<Rightarrow>
          (case sl_key inputEl of
             None \<Rightarrow> []
           | Some key \<Rightarrow>
               (let percent0 =
                      (if sl_height inputEl > sl_width inputEl
                       then (sl_bottom inputEl - pt_y screenPos) / sl_height inputEl
                       else (pt_x screenPos - sl_left inputEl) / sl_width inputEl);
                    percent = max 0 (min 1 percent0);
                    newVal0 = sl_min inputEl + (sl_max inputEl - sl_min inputEl) * percent;
                    newVal = js_round (newVal0 / sl_step inputEl) * sl_step inputEl
                in [CallOnSettingsChange (setSetting (settingsRef s) key newVal)])))"

text \<open>The dwell timer on a button: 600 ms over the same button clicks it.\<close>

definition buttonLogic :: "real \<Rightarrow> LastInteract \<Rightarrow> DomElement \<Rightarrow> LastInteract \<times> UiAction list" where
  "buttonLogic now li el =
     (case el_button el of
        Some btnEl \<Rightarrow>
          (if li_element li \<noteq> Some btnEl
           then (li\<lparr>li_element := Some btnEl, li_startTime := now\<rparr>, [])
           else
             (let elapsed = now - li_startTime li;
                  DWELL_TIME = 600
              in if elapsed > DWELL_TIME
                 then (li\<lparr>li_startTime := now + 1000\<rparr>, [ClickButton btnEl])
                 else (li, [])))
      | None \<Rightarrow> (li\<lparr>li_element := None\<rparr>, []))"

text \<open>The body of \<^verbatim>\<open>currentHands.forEach\<close> for one hand.\<close>

definition handInteract ::
  "ARRefs \<Rightarrow> RenderEnv \<Rightarrow> LastInteract \<Rightarrow> Landmark list \<Rightarrow> (LastInteract \<times> UiAction list) option"
where
  "handInteract s env li hand =
     (case js_index hand INDEX_FINGER_TIP of
        None \<Rightarrow> Some (li, [])
      | Some tip \<Rightarrow> do {
          wrist \<leftarrow> js_index hand 0;
          iPip \<leftarrow> js_index hand INDEX_FINGER_PIP;
          let isIndexExtended = dist wrist tip > dist wrist iPip;
          mTip \<leftarrow> js_index hand MIDDLE_FINGER_TIP;
          mPip \<leftarrow> js_index hand MIDDLE_FINGER_PIP;
          let isMiddleCurled = dist wrist mTip < dist wrist mPip;
          rTip \<leftarrow> js_index hand RING_FINGER_TIP;
          rPip \<leftarrow> js_index hand RING_FINGER_PIP;
          let isRingCurled = dist wrist rTip < dist wrist rPip;
          pTip \<leftarrow> js_index hand PINKY_TIP;
          pPip \<leftarrow> js_index hand PINKY_PIP;
          let isPinkyCurled = dist wrist pTip < dist wrist pPip;
          let pointing = isIndexExtended \<and> isMiddleCurled \<and> isRingCurled \<and> isPinkyCurled;
          let p = getMappedCoords s (lm_x tip) (lm_y tip) True;
          Some (if pointing then
                  (let screenPos = getScreenCoords env (pt_x p) (pt_y p) in
                   case elementFromPoint env (pt_x screenPos) (pt_y screenPos) of
                     None \<Rightarrow> (li, [])
                   | Some el \<Rightarrow>
                       (let sa = sliderLogic s screenPos el;
                            (li', ba) = buttonLogic (perfNow env) li el
                        in (li', sa @ ba)))
                else (li\<lparr>li_element := None\<rparr>, []))
        })"

fun forEachHand ::
  "ARRefs \<Rightarrow> RenderEnv \<Rightarrow> LastInteract \<Rightarrow> Landmark list list \<Rightarrow> (LastInteract \<times> UiAction list) option"
where
  "forEachHand s env li [] = Some (li, [])"
| "forEachHand s env li (hand # hs) =
     (case handInteract s env li hand of
        None \<Rightarrow> None
      | Some (li1, a1) \<Rightarrow>
          (case forEachHand s env li1 hs of
             None \<Rightarrow> None
           | Some (li2, a2) \<Rightarrow> Some (li2, a1 @ a2)))"

text \<open>The \<^verbatim>\<open>afterRender\<close> hook, part 2 (hand interaction points); part 1 only draws.\<close>

definition afterRender :: "RenderEnv \<Rightarrow> ARRefs \<Rightarrow> (ARRefs \<times> UiAction list) option" where
  "afterRender env s =
     (case handLandmarksRef s of
        None \<Rightarrow> Some (s, [])
      | Some currentHands \<Rightarrow>
          if isCameraOnRef s then
            (case forEachHand s env (lastInteractRef s) currentHands of
               None \<Rightarrow> None
             | Some (li, acts) \<Rightarrow> Some (s\<lparr>lastInteractRef := li\<rparr>, acts))
          else Some (s, []))"

text \<open>The detector callbacks registered in \<^verbatim>\<open>initMediaPipe\<close>.\<close>

definition faceMesh_onResults :: "Landmark list list option \<Rightarrow> ARRefs \<Rightarrow> ARRefs" where
  "faceMesh_onResults multiFaceLandmarks s =
     (case multiFaceLandmarks of
        None \<Rightarrow> s\<lparr>faceLandmarksRef := None\<rparr>
      | Some ls \<Rightarrow>
          if length ls > 0 then s\<lparr>faceLandmarksRef := Some (hd ls)\<rparr>
          else s\<lparr>faceLandmarksRef := None\<rparr>)"

definition hands_onResults :: "Landmark list list option \<Rightarrow> ARRefs \<Rightarrow> ARRefs" where
  "hands_onResults multiHands s =
     (case multiHands of
        None \<Rightarrow> s\<lparr>handLandmarksRef := None\<rparr>
      | Some ls \<Rightarrow>
          if length ls > 0 then s\<lparr>handLandmarksRef := Some ls\<rparr>
          else s\<lparr>handLandmarksRef := None\<rparr>)"

text \<open>
  The events of the component's animation loop: a detector callback, a physics frame
  (\<^verbatim>\<open>beforeUpdate\<close>) or a render frame (\<^verbatim>\<open>afterRender\<close>).
\<close>

datatype AREvent =
    FaceResults "Landmark list list option"
  | HandResults "Landmark list list option"
  | PhysicsFrame int StepRandom
  | RenderFrame RenderEnv

fun isDetectorEvent :: "AREvent \<Rightarrow> bool" where
  "isDetectorEvent (FaceResults _) = True"
| "isDetectorEvent (HandResults _) = True"
| "isDetectorEvent _ = False"

fun arStep :: "ARRefs \<Rightarrow> AREvent \<Rightarrow> (ARRefs \<times> UiAction list) option" where
  "arStep s (FaceResults r) = Some (faceMesh_onResults r s, [])"
| "arStep s (HandResults r) = Some (hands_onResults r s, [])"
| "arStep s (PhysicsFrame now rnd) = Some (beforeUpdate now rnd s, [])"
| "arStep s (RenderFrame env) = afterRender env s"

text \<open>Running a sequence of events, keeping the actions of each.\<close>

fun arRun :: "ARRefs \<Rightarrow> AREvent list \<Rightarrow> (ARRefs \<times> UiAction list list) option" where
  "arRun s [] = Some (s, [])"
| "arRun s (e # es) =
     (case arStep s e of
        None \<Rightarrow> None
      | Some (s', a) \<Rightarrow>
          (case arRun s' es of None \<Rightarrow> None | Some (s'', as) \<Rightarrow> Some (s'', a # as)))"

section \<open>Time-slice camera: puppet horses (utils/santaUtils.ts and the SANTA_WALKER branch)\<close>




















section \<open>Time-slice camera: grid stretch (utils/gridStretchUtils.ts)\<close>


text \<open>The field \<^verbatim>\<open>n\<close> of the class: initialised to 15 and never assigned again.\<close>

definition gs_n :: nat where "gs_n = 15"

record GridStretchManager =
  currentWeightsX :: "real list"
  currentWeightsY :: "real list"
  targetWeightsX :: "real list"
  targetWeightsY :: "real list"

text \<open>
  \<^verbatim>\<open>xs[i] = v\<close>: inside the array it overwrites, at its end it appends. The loops below
  write the indexes 0, 1, ... in order, so no write lies further out (there JavaScript
  would leave holes; the model pads with 0).
\<close>

definition js_set :: "real list \<Rightarrow> nat \<Rightarrow> real \<Rightarrow> real list" where
  "js_set xs i v =
     (if i < length xs then xs[i := v] else xs @ replicate (i - length xs) 0 @ [v])"















section \<open>Reference formulas and concrete inputs\<close>

text \<open>The quadratic Bezier formula as the specification words it, with the body's fixed
  x offset.\<close>

definition quadratic_bezier_spec :: "real \<Rightarrow> Point \<Rightarrow> Point \<Rightarrow> Point \<Rightarrow> real \<Rightarrow> Point" where
  "quadratic_bezier_spec t p0 p1 p2 xOffset =
     \<lparr>pt_x = (1 - t)\<^sup>2 * pt_x p0 + 2 * (1 - t) * t * pt_x p1 + t\<^sup>2 * pt_x p2 + xOffset,
      pt_y = (1 - t)\<^sup>2 * pt_y p0 + 2 * (1 - t) * t * pt_y p1 + t\<^sup>2 * pt_y p2\<rparr>"

text \<open>What a detector callback stores for a given result, and what a sequence of events
  leaves stored: the value of the last callback of each kind.\<close>

definition storedFace :: "Landmark list list option \<Rightarrow> Landmark list option" where
  "storedFace r =
     (case r of None \<Rightarrow> None | Some ls \<Rightarrow> if length ls > 0 then Some (hd ls) else None)"

definition storedHands :: "Landmark list list option \<Rightarrow> Landmark list list option" where
  "storedHands r =
     (case r of None \<Rightarrow> None | Some ls \<Rightarrow> if length ls > 0 then Some ls else None)"

fun lastStored ::
  "Landmark list option \<times> Landmark list list option \<Rightarrow> AREvent list \<Rightarrow>
   Landmark list option \<times> Landmark list list option"
where
  "lastStored v [] = v"
| "lastStored (fc, hn) (FaceResults r # es) = lastStored (storedFace r, hn) es"
| "lastStored (fc, hn) (HandResults r # es) = lastStored (fc, storedHands r) es"
| "lastStored v (_ # es) = lastStored v es"


text \<open>A face whose 478 landmarks all sit at the centre of the frame.\<close>

definition face_flat :: "Landmark list" where
  "face_flat = replicate 478 \<lparr>lm_x = 0.5, lm_y = 0.5, lm_z = 0\<rparr>"

definition refs_cam_on :: ARRefs where
  "refs_cam_on =
     \<lparr>dimensionsRef = \<lparr>sz_width = 100, sz_height = 100\<rparr>,
      videoDimensionsRef = \<lparr>sz_width = 100, sz_height = 100\<rparr>,
      ar_zoomLevelRef = 1,
      faceLandmarksRef = Some face_flat,
      handLandmarksRef = None,
      isCameraOnRef = True,
      settingsRef = \<lparr>st_size = 40, st_speed = 1, st_bounce = 0.5\<rparr>,
      lastInteractRef = \<lparr>li_element = None, li_startTime = 0\<rparr>,
      lastSpawnTimeRef = 0,
      textQueueRef = [],
      mousePosition = \<lparr>pt_x = 0, pt_y = 0\<rparr>,
      gravity_y = 1,
      bodies = [],
      textConsumed = 0\<rparr>"

definition refs_cam_off :: ARRefs where
  "refs_cam_off = refs_cam_on\<lparr>isCameraOnRef := False\<rparr>"

definition refs_no_face :: ARRefs where
  "refs_no_face = refs_cam_on\<lparr>faceLandmarksRef := None\<rparr>"

text \<open>A tear half way down the left cheek, still at the corner of the canvas.\<close>

definition body_sliding :: TearBody where
  "body_sliding =
     \<lparr>isStatic = False, restitution = 0.5, isSensor = True,
      position = \<lparr>pt_x = 0, pt_y = 0\<rparr>,
      velocity = \<lparr>pt_x = 0, pt_y = 0\<rparr>,
      angularVelocity = 0,
      force = \<lparr>pt_x = 0, pt_y = 0\<rparr>,
      plugin = \<lparr>pl_state = sliding, pl_side = left_side, pl_progress = 0.5,
                pl_pathOffset = 0, pl_currentSize = 40,
                pl_origin = Some \<lparr>pt_x = 50, pt_y = 50\<rparr>, pl_rewindStartTime = None\<rparr>,
      customText = Some ''a'', baseFontSize = 40\<rparr>"

definition rnd_zero :: StepRandom where
  "rnd_zero = \<lparr>rnd_body = (\<lambda>k. (0, 0)), rnd_side = 0, rnd_x = 0, rnd_offset = 0\<rparr>"

definition env_empty :: RenderEnv where
  "env_empty = \<lparr>perfNow = 0, containerRect = None, elementFromPoint = (\<lambda>sx sy. None)\<rparr>"




section \<open>Time-slice camera: conditions and runs used in the statements\<close>

text \<open>The hand conditions of the two transitions, read off the state machine.\<close>

definition entersResizing :: "AppState \<Rightarrow> NormalizedLandmarkList list option \<Rightarrow> bool" where
  "entersResizing st hands =
     (st = IDLE \<and> twoHands hands \<and> bothHands isPointingUp (the_hands hands) = Some True)"

definition entersFrozen :: "AppState \<Rightarrow> NormalizedLandmarkList list option \<Rightarrow> bool" where
  "entersFrozen st hands =
     (twoHands hands \<and> bothHands isPinching (the_hands hands) = Some True \<and>
      (st = RESIZING \<or> (st = IDLE \<and> bothHands isPointingUp (the_hands hands) = Some True)))"

text \<open>The firing conditions of the two dwell timers, read off the post-render logic.\<close>

definition resetFires :: "bool \<Rightarrow> AppRefs \<Rightarrow> Frame \<Rightarrow> bool" where
  "resetFires gesture s f =
     (gesture \<and> nowResetElapsed f - startOr (resetStartTimeRef s) (nowResetStart f) > 1500)"

definition switchFires :: "bool \<Rightarrow> AppRefs \<Rightarrow> Frame \<Rightarrow> bool" where
  "switchFires victory s f =
     (stateRef s = FROZEN \<and> victory \<and>
      nowSwitchElapsed f - startOr (effectSwitchStartTimeRef s) (nowSwitchStart f) > 2000)"

text \<open>The callback over a sequence of frames, keeping the refs and actions after each.\<close>

fun runStates :: "AppRefs \<Rightarrow> Frame list \<Rightarrow> (AppRefs \<times> Action list) list option" where
  "runStates s [] = Some []"
| "runStates s (f # fs) =
     (case onResults s f of
        None \<Rightarrow> None
      | Some (s', a) \<Rightarrow> map_option ((#) (s', a)) (runStates s' fs))"

text \<open>Frames built from a list of hands and one clock reading, shown on a 640 x 480 canvas.\<close>

definition mk_frame :: "NormalizedLandmarkList list option \<Rightarrow> int \<Rightarrow> Frame" where
  "mk_frame hands t =
     \<lparr>results = \<lparr>image_id = nat t, image_width = Some 1280, image_height = Some 720,
                 multiHandLandmarks = hands\<rparr>,
      displayWidth = 640, displayHeight = 480,
      nowResetStart = t, nowResetElapsed = t, nowSwitchStart = t, nowSwitchElapsed = t\<rparr>"

text \<open>Index and middle finger raised, ring and pinky curled.\<close>

definition hand_victory :: NormalizedLandmarkList where
  "hand_victory = mk_hand
     [(0.5, 0.9), (0.4, 0.8), (0.3, 0.7), (0.2, 0.6), (0.1, 0.6),
      (0.5, 0.6), (0.5, 0.5), (0.5, 0.4), (0.5, 0.3),
      (0.6, 0.6), (0.6, 0.5), (0.6, 0.4), (0.6, 0.3),
      (0.7, 0.6), (0.7, 0.5), (0.7, 0.55), (0.7, 0.6),
      (0.8, 0.6), (0.8, 0.5), (0.8, 0.55), (0.8, 0.6)]"

definition frame_point_pinch :: Frame where
  "frame_point_pinch = mk_frame (Some [hand_point_pinch, hand_point_pinch]) 0"

definition frame_point :: Frame where
  "frame_point = mk_frame (Some [hand_point, hand_point]) 0"

definition env_button :: "real \<Rightarrow> RenderEnv" where
  "env_button t =
     \<lparr>perfNow = t, containerRect = None,
      elementFromPoint = (\<lambda>sx sy. Some \<lparr>el_slider = None, el_button = Some 7\<rparr>)\<rparr>"

definition lost_hand_events :: "AREvent list" where
  "lost_hand_events =
     [HandResults (Some [hand_point]), RenderFrame (env_button 1000),
      HandResults None, RenderFrame (env_button 1300),
      HandResults (Some [hand_point]), RenderFrame (env_button 1700)]"

definition other_pose_events :: "AREvent list" where
  "other_pose_events =
     [HandResults (Some [hand_point]), RenderFrame (env_button 1000),
      HandResults (Some [hand_victory]), RenderFrame (env_button 1300),
      HandResults (Some [hand_point]), RenderFrame (env_button 1700)]"

section \<open>Grid stretch: invariants used in the statements\<close>

text \<open>The class invariant established by the constructor: four arrays of \<open>n\<close> weights.\<close>

definition wf_grid :: "GridStretchManager \<Rightarrow> bool" where
  "wf_grid g = (length (currentWeightsX g) = gs_n \<and> length (currentWeightsY g) = gs_n \<and>
                length (targetWeightsX g) = gs_n \<and> length (targetWeightsY g) = gs_n)"




text \<open>An array of \<open>n\<close> weights, none below the baseline 1.\<close>

definition weights_ok :: "real list \<Rightarrow> bool" where
  "weights_ok ws = (length ws = gs_n \<and> (\<forall>j < gs_n. 1 \<le> ws ! j))"

definition grid_ok :: "GridStretchManager \<Rightarrow> bool" where
  "grid_ok g = (weights_ok (currentWeightsX g) \<and> weights_ok (currentWeightsY g) \<and>
                weights_ok (targetWeightsX g) \<and> weights_ok (targetWeightsY g))"


section \<open>Properties of the gesture predicates\<close>

lemma js_index_in_range: "i < length xs \<Longrightarrow> js_index xs i = Some (xs ! i)"
  by (simp add: js_index_def)

lemma lm_y_at_in_range: "i < length l \<Longrightarrow> lm_y_at l i = Some (lm_y (l ! i))"
  by (simp add: lm_y_at_def js_index_def)

lemma lm_x_at_in_range: "i < length l \<Longrightarrow> lm_x_at l i = Some (lm_x (l ! i))"
  by (simp add: lm_x_at_def js_index_def)

lemma isPointingUp_full:
  "21 \<le> length l \<Longrightarrow>
   isPointingUp (Some l) =
     Some (lm_y (l ! 8) < lm_y (l ! 6) \<and> lm_y (l ! 12) > lm_y (l ! 10) \<and>
           lm_y (l ! 16) > lm_y (l ! 14) \<and> lm_y (l ! 20) > lm_y (l ! 18))"
  by (simp add: isPointingUp_def lm_y_at_in_range)

lemma isHandClosed_full:
  "21 \<le> length l \<Longrightarrow>
   isHandClosed (Some l) =
     Some (lm_y (l ! 8) > lm_y (l ! 6) \<and> lm_y (l ! 12) > lm_y (l ! 10) \<and>
           lm_y (l ! 16) > lm_y (l ! 14) \<and> lm_y (l ! 20) > lm_y (l ! 18))"
  by (simp add: isHandClosed_def lm_y_at_in_range)

lemma isVictoryHand_full:
  "21 \<le> length l \<Longrightarrow>
   isVictoryHand (Some l) =
     Some (lm_y (l ! 8) < lm_y (l ! 6) \<and> lm_y (l ! 12) < lm_y (l ! 10) \<and>
           lm_y (l ! 16) > lm_y (l ! 14) \<and> lm_y (l ! 20) > lm_y (l ! 18))"
  by (simp add: isVictoryHand_def lm_y_at_in_range)

lemma sqrt_less_twentieth: "(sqrt d < 0.05) = (d < 0.0025)"
proof -
  have "(0.05::real) = sqrt 0.0025"
    by (rule sym, rule real_sqrt_unique) (simp_all add: power2_eq_square)
  then show ?thesis by (simp only: real_sqrt_less_iff)
qed

lemma sqrt_less_twentieth_normal: "(sqrt d * 20 < 1) = (d * 400 < 1)"
  using sqrt_less_twentieth [of d] by simp

lemma isPinching_full:
  "21 \<le> length l \<Longrightarrow>
   isPinching (Some l) =
     Some ((lm_x (l ! 8) - lm_x (l ! 4)) * (lm_x (l ! 8) - lm_x (l ! 4)) +
           (lm_y (l ! 8) - lm_y (l ! 4)) * (lm_y (l ! 8) - lm_y (l ! 4)) < 0.0025)"
  by (simp add: isPinching_def lm_y_at_in_range lm_x_at_in_range Let_def
      sqrt_less_twentieth_normal)

lemma isPointingUp_short:
  "length l < 21 \<Longrightarrow> isPointingUp (Some l) = Some False"
  by (simp add: isPointingUp_def)

lemma isHandClosed_short:
  "length l < 21 \<Longrightarrow> isHandClosed (Some l) = Some False"
  by (simp add: isHandClosed_def)

lemma isPinching_short:
  "length l < 21 \<Longrightarrow> isPinching (Some l) = Some False"
  by (simp add: isPinching_def)

lemma isVictoryHand_short:
  "length l < 21 \<Longrightarrow> isVictoryHand (Some l) = Some False"
  by (simp add: isVictoryHand_def)

lemma isPointingUp_total: "\<exists>b. isPointingUp landmarks = Some b"
proof (cases landmarks)
  case None
  then show ?thesis by (auto simp add: isPointingUp_def)
next
  case (Some l)
  then show ?thesis
    by (cases "length l < 21") (auto simp add: isPointingUp_short isPointingUp_full)
qed

lemma isHandClosed_total: "\<exists>b. isHandClosed landmarks = Some b"
proof (cases landmarks)
  case None
  then show ?thesis by (auto simp add: isHandClosed_def)
next
  case (Some l)
  then show ?thesis
    by (cases "length l < 21") (auto simp add: isHandClosed_short isHandClosed_full)
qed

lemma isPinching_total: "\<exists>b. isPinching landmarks = Some b"
proof (cases landmarks)
  case None
  then show ?thesis by (auto simp add: isPinching_def)
next
  case (Some l)
  then show ?thesis
    by (cases "length l < 21") (auto simp add: isPinching_short isPinching_full)
qed

lemma isVictoryHand_total: "\<exists>b. isVictoryHand landmarks = Some b"
proof (cases landmarks)
  case None
  then show ?thesis by (auto simp add: isVictoryHand_def)
next
  case (Some l)
  then show ?thesis
    by (cases "length l < 21") (auto simp add: isVictoryHand_short isVictoryHand_full)
qed

lemma length_mk_hand: "length (mk_hand ps) = length ps"
  by (simp add: mk_hand_def)

lemma length_hand_point: "length hand_point = 21"
  by (simp add: hand_point_def mk_hand_def)

lemma length_hand_point_pinch: "length hand_point_pinch = 21"
  by (simp add: hand_point_pinch_def mk_hand_def)

lemma length_hand_fist_pinch: "length hand_fist_pinch = 21"
  by (simp add: hand_fist_pinch_def mk_hand_def)



text \<open>
  Claim C8. Each of the four gesture predicates is total: it returns a boolean on
  every input and never throws; and on a landmark list that is null/undefined or
  has fewer than 21 entries it returns false (the guard returns before any
  landmark is read, so the result holds whatever the short list contains).
\<close>

theorem C8_gesture_predicates_total:
  "(\<exists>b. isPointingUp landmarks = Some b) \<and>
   (\<exists>b. isHandClosed landmarks = Some b) \<and>
   (\<exists>b. isPinching landmarks = Some b) \<and>
   (\<exists>b. isVictoryHand landmarks = Some b) \<and>
   ((landmarks = None \<or> (\<exists>l. landmarks = Some l \<and> length l < 21)) \<longrightarrow>
      isPointingUp landmarks = Some False \<and>
      isHandClosed landmarks = Some False \<and>
      isPinching landmarks = Some False \<and>
      isVictoryHand landmarks = Some False)"
proof -
  have short: "isPointingUp landmarks = Some False \<and> isHandClosed landmarks = Some False \<and>
      isPinching landmarks = Some False \<and> isVictoryHand landmarks = Some False"
    if "landmarks = None \<or> (\<exists>l. landmarks = Some l \<and> length l < 21)"
    using that
  proof
    assume "landmarks = None"
    then show ?thesis
      by (simp add: isPointingUp_def isHandClosed_def isPinching_def isVictoryHand_def)
  next
    assume "\<exists>l. landmarks = Some l \<and> length l < 21"
    then obtain l where "landmarks = Some l" and "length l < 21" by blast
    then show ?thesis
      by (simp add: isPointingUp_short isHandClosed_short isPinching_short
          isVictoryHand_short)
  qed
  from short isPointingUp_total isHandClosed_total isPinching_total isVictoryHand_total
  show ?thesis by blast
qed

theorem C8_gesture_predicates_total_witness:
  "length (take 20 hand_point) < 21 \<and>
   isPointingUp (Some (take 20 hand_point)) = Some False \<and>
   isHandClosed (Some (take 20 hand_point)) = Some False \<and>
   isPinching (Some (take 20 hand_point)) = Some False \<and>
   isVictoryHand (Some (take 20 hand_point)) = Some False \<and>
   isPointingUp None = Some False \<and> isHandClosed None = Some False \<and>
   isPinching None = Some False \<and> isVictoryHand None = Some False"
proof -
  have h: "length (take 20 hand_point) < 21" by simp
  show ?thesis
    using h C8_gesture_predicates_total [of "Some (take 20 hand_point)"]
      C8_gesture_predicates_total [of None]
    by simp
qed

text \<open>
  Claim C9. On a landmark list with at least 21 entries, at most one of
  isPointingUp, isHandClosed and isVictoryHand returns true.
\<close>

theorem C9_poses_mutually_exclusive:
  assumes "21 \<le> length l"
  shows "\<not> (isPointingUp (Some l) = Some True \<and> isHandClosed (Some l) = Some True) \<and>
         \<not> (isPointingUp (Some l) = Some True \<and> isVictoryHand (Some l) = Some True) \<and>
         \<not> (isHandClosed (Some l) = Some True \<and> isVictoryHand (Some l) = Some True)"
  using assms
  by (simp add: isPointingUp_full isHandClosed_full isVictoryHand_full)

theorem C9_poses_mutually_exclusive_witness:
  "21 \<le> length hand_point \<and>
   isPointingUp (Some hand_point) = Some True \<and>
   isHandClosed (Some hand_point) \<noteq> Some True \<and>
   isVictoryHand (Some hand_point) \<noteq> Some True"
proof -
  have h: "21 \<le> length hand_point" by (simp add: length_hand_point)
  have p: "isPointingUp (Some hand_point) = Some True"
    by (simp add: isPointingUp_full h) (simp add: hand_point_def mk_hand_def)
  show ?thesis using h p C9_poses_mutually_exclusive [OF h] by blast
qed




section \<open>Properties of the coordinate mappers\<close>

lemma getMappedCoords_spec:
  "getMappedCoords s nx ny mirrorX =
     cover_map_spec (sz_width (dimensionsRef s)) (sz_height (dimensionsRef s))
       (sz_width (videoDimensionsRef s)) (sz_height (videoDimensionsRef s))
       (ar_zoomLevelRef s) mirrorX nx ny"
  by (simp add: getMappedCoords_def cover_map_spec_def Let_def)

lemma getScreenCoord_spec:
  "getScreenCoord (drawGeom canvasW canvasH res zoom) nx ny =
     cover_map_spec canvasW canvasH (js_or (image_width res) 1280) (js_or (image_height res) 720)
       zoom False nx ny"
  by (simp add: getScreenCoord_def drawGeom_def cover_map_spec_def Let_def algebra_simps
      diff_divide_distrib add_divide_distrib)

text \<open>
  Claim C1. Both coordinate mappers compute the "cover" scale-and-center formula:
  the tear filter's getMappedCoords with its mirror flag and zoom about the canvas
  centre, and the time-slice camera's getScreenCoord (which folds the zoom into the
  scale and has no mirror flag) as the same formula without mirroring. Each is a
  function of the canvas size, video size, zoom, mirror flag and the point alone.
\<close>

theorem C1_cover_mapping:
  "getMappedCoords s nx ny mirrorX =
     cover_map_spec (sz_width (dimensionsRef s)) (sz_height (dimensionsRef s))
       (sz_width (videoDimensionsRef s)) (sz_height (videoDimensionsRef s))
       (ar_zoomLevelRef s) mirrorX nx ny \<and>
   getScreenCoord (frameGeom a f) nx ny =
     cover_map_spec (canvasWidth a) (canvasHeight a)
       (js_or (image_width (results f)) 1280) (js_or (image_height (results f)) 720)
       (zoomLevelRef a) False nx ny"
  by (simp only: getMappedCoords_spec getScreenCoord_spec frameGeom_def simp_thms)

section \<open>Properties of the tear physics step\<close>


lemma repel_keeps:
  "position (repel b pt) = position b" "plugin (repel b pt) = plugin b"
  "isSensor (repel b pt) = isSensor b"
  by (simp_all add: repel_def Let_def)

lemma foldl_repel_keeps:
  "position (foldl repel b pts) = position b \<and> plugin (foldl repel b pts) = plugin b \<and>
   isSensor (foldl repel b pts) = isSensor b"
  by (induction pts arbitrary: b) (simp_all add: repel_keeps)

lemma fallingLogic_keeps:
  "position (fallingLogic pts b) = position b" "plugin (fallingLogic pts b) = plugin b"
  "isSensor (fallingLogic pts b) = isSensor b"
  by (simp_all add: fallingLogic_def foldl_repel_keeps)


lemma facePath_camera_off: "\<not> isCameraOnRef s \<Longrightarrow> facePath s side = None"
  by (simp add: facePath_def)

lemma facePath_present:
  "isCameraOnRef s \<Longrightarrow> faceLandmarksRef s = Some fl \<Longrightarrow>
   js_index fl (if side = left_side then L_EYE else R_EYE) = Some p0Raw \<Longrightarrow>
   js_index fl (if side = left_side then L_CHEEK else R_CHEEK) = Some p1Raw \<Longrightarrow>
   js_index fl (if side = left_side then L_DROP else R_DROP) = Some p2Raw \<Longrightarrow>
   facePath s side = Some (p0Raw, p1Raw, p2Raw)"
  by (simp add: facePath_def Let_def)

lemma tearLogic_sliding:
  assumes "\<not> isStatic body" "pl_state (plugin body) = sliding"
  shows "tearLogic s now pts rnd1 rnd2 body =
           Kept (fallingLogic pts (slidingLogic s rnd1 rnd2
                   (body\<lparr>restitution := st_bounce (settingsRef s)\<rparr>)))"
  using assms by (simp add: tearLogic_def Let_def)

lemma slidingLogic_no_path:
  assumes "pl_state (plugin body) = sliding" "facePath s (pl_side (plugin body)) = None"
  shows "slidingLogic s rnd1 rnd2 body = setFalling body"
  using assms by (simp add: slidingLogic_def)

lemma slidingLogic_path:
  assumes "pl_state (plugin body) = sliding"
    "facePath s (pl_side (plugin body)) = Some (p0Raw, p1Raw, p2Raw)"
  shows "position (slidingLogic s rnd1 rnd2 body) =
           quadratic_bezier_spec (pl_progress (plugin body))
             (getMappedCoords s (lm_x p0Raw) (lm_y p0Raw) True)
             (getMappedCoords s (lm_x p1Raw) (lm_y p1Raw) True)
             (getMappedCoords s (lm_x p2Raw) (lm_y p2Raw) True)
             (pl_pathOffset (plugin body))"
    and "pl_progress (plugin (slidingLogic s rnd1 rnd2 body)) =
           pl_progress (plugin body) + (0.01 + pl_progress (plugin body) * 0.03)"
    and "pl_state (plugin (slidingLogic s rnd1 rnd2 body)) =
           (if pl_progress (plugin (slidingLogic s rnd1 rnd2 body)) \<ge> 1
            then falling else sliding)"
  using assms
  by (simp_all add: slidingLogic_def Let_def setFalling_def power2_eq_square
      quadratic_bezier_spec_def)

lemma face_flat_index: "i < 478 \<Longrightarrow> js_index face_flat i = Some \<lparr>lm_x = 0.5, lm_y = 0.5, lm_z = 0\<rparr>"
  by (simp add: js_index_def face_flat_def)

lemma mapped_centre_cam:
  "getMappedCoords refs_cam_on (1 / 2) (1 / 2) True = \<lparr>pt_x = 50, pt_y = 50\<rparr>"
  "getMappedCoords refs_cam_off (1 / 2) (1 / 2) True = \<lparr>pt_x = 50, pt_y = 50\<rparr>"
  by (simp_all add: getMappedCoords_def refs_cam_on_def refs_cam_off_def Let_def)

text \<open>
  Claim C6, as stated, fails when the camera has been switched off while the last face
  landmarks are still stored: the sliding tear is not placed on the Bezier curve (which
  lies at (50, 50) here) but stays where it is and starts falling.
\<close>

theorem C6_camera_off_counterexample:
  "pl_state (plugin body_sliding) = sliding \<and>
   faceLandmarksRef refs_cam_off = Some face_flat \<and>
   js_index face_flat L_EYE = Some \<lparr>lm_x = 0.5, lm_y = 0.5, lm_z = 0\<rparr> \<and>
   js_index face_flat L_CHEEK = Some \<lparr>lm_x = 0.5, lm_y = 0.5, lm_z = 0\<rparr> \<and>
   js_index face_flat L_DROP = Some \<lparr>lm_x = 0.5, lm_y = 0.5, lm_z = 0\<rparr> \<and>
   tearLogic refs_cam_off 0 [] 0 0 body_sliding =
     Kept (body_sliding\<lparr>plugin := (plugin body_sliding)\<lparr>pl_state := falling\<rparr>,
                         isSensor := False\<rparr>) \<and>
   position (body_sliding\<lparr>plugin := (plugin body_sliding)\<lparr>pl_state := falling\<rparr>,
                          isSensor := False\<rparr>) = \<lparr>pt_x = 0, pt_y = 0\<rparr> \<and>
   quadratic_bezier_spec (pl_progress (plugin body_sliding))
     (getMappedCoords refs_cam_off 0.5 0.5 True)
     (getMappedCoords refs_cam_off 0.5 0.5 True)
     (getMappedCoords refs_cam_off 0.5 0.5 True)
     (pl_pathOffset (plugin body_sliding)) = \<lparr>pt_x = 50, pt_y = 50\<rparr>"
proof -
  have st: "pl_state (plugin body_sliding) = sliding" "\<not> isStatic body_sliding"
    by (simp_all add: body_sliding_def)
  have off: "\<not> isCameraOnRef refs_cam_off"
    by (simp add: refs_cam_off_def)
  have step: "tearLogic refs_cam_off 0 [] 0 0 body_sliding =
     Kept (body_sliding\<lparr>plugin := (plugin body_sliding)\<lparr>pl_state := falling\<rparr>,
                         isSensor := False\<rparr>)"
    by (simp add: tearLogic_def Let_def slidingLogic_def facePath_camera_off [OF off]
        fallingLogic_def setFalling_def)
       (simp add: body_sliding_def refs_cam_off_def refs_cam_on_def)
  have bez: "quadratic_bezier_spec (pl_progress (plugin body_sliding))
     (getMappedCoords refs_cam_off 0.5 0.5 True)
     (getMappedCoords refs_cam_off 0.5 0.5 True)
     (getMappedCoords refs_cam_off 0.5 0.5 True)
     (pl_pathOffset (plugin body_sliding)) = \<lparr>pt_x = 50, pt_y = 50\<rparr>"
    by (simp add: mapped_centre_cam quadratic_bezier_spec_def body_sliding_def power2_eq_square)
  have face: "faceLandmarksRef refs_cam_off = Some face_flat"
    by (simp add: refs_cam_off_def refs_cam_on_def)
  have pos: "position (body_sliding\<lparr>plugin := (plugin body_sliding)\<lparr>pl_state := falling\<rparr>,
                          isSensor := False\<rparr>) = \<lparr>pt_x = 0, pt_y = 0\<rparr>"
    by (simp add: body_sliding_def)
  show ?thesis
    using st(1) face step bez pos
    by (simp add: face_flat_index L_EYE_def L_CHEEK_def L_DROP_def)
qed

text \<open>
  Claim C6, amended. While a tear body is in the 'sliding' state, the camera is on and
  the eye, cheek and drop landmarks of its side are present, the physics step places it
  at the quadratic Bezier point of the three mapped landmarks at \<open>t\<close> = its progress, plus
  its fixed x offset; the progress then advances by 0.01 + 0.03 t, and the body switches
  to 'falling' exactly when the advanced progress has reached 1.
\<close>

theorem C6_sliding_bezier:
  assumes "\<not> isStatic body" and "pl_state (plugin body) = sliding"
    and "isCameraOnRef s" and "faceLandmarksRef s = Some fl"
    and "js_index fl (if pl_side (plugin body) = left_side then L_EYE else R_EYE) = Some p0Raw"
    and "js_index fl (if pl_side (plugin body) = left_side then L_CHEEK else R_CHEEK) = Some p1Raw"
    and "js_index fl (if pl_side (plugin body) = left_side then L_DROP else R_DROP) = Some p2Raw"
  shows "\<exists>b'. tearLogic s now pts rnd1 rnd2 body = Kept b' \<and>
      position b' =
        quadratic_bezier_spec (pl_progress (plugin body))
          (getMappedCoords s (lm_x p0Raw) (lm_y p0Raw) True)
          (getMappedCoords s (lm_x p1Raw) (lm_y p1Raw) True)
          (getMappedCoords s (lm_x p2Raw) (lm_y p2Raw) True)
          (pl_pathOffset (plugin body)) \<and>
      pl_progress (plugin b') =
        pl_progress (plugin body) + (0.01 + pl_progress (plugin body) * 0.03) \<and>
      pl_state (plugin b') = (if pl_progress (plugin b') \<ge> 1 then falling else sliding)"
proof -
  let ?b0 = "body\<lparr>restitution := st_bounce (settingsRef s)\<rparr>"
  have sl: "pl_state (plugin ?b0) = sliding" using assms(2) by simp
  have fp: "facePath s (pl_side (plugin ?b0)) = Some (p0Raw, p1Raw, p2Raw)"
    using facePath_present [OF assms(3) assms(4) assms(5) assms(6) assms(7)] by simp
  have "tearLogic s now pts rnd1 rnd2 body =
          Kept (fallingLogic pts (slidingLogic s rnd1 rnd2 ?b0))"
    by (rule tearLogic_sliding [OF assms(1) assms(2)])
  moreover have "position (fallingLogic pts (slidingLogic s rnd1 rnd2 ?b0)) =
        quadratic_bezier_spec (pl_progress (plugin body))
          (getMappedCoords s (lm_x p0Raw) (lm_y p0Raw) True)
          (getMappedCoords s (lm_x p1Raw) (lm_y p1Raw) True)
          (getMappedCoords s (lm_x p2Raw) (lm_y p2Raw) True)
          (pl_pathOffset (plugin body))"
    using slidingLogic_path(1) [OF sl fp] by (simp add: fallingLogic_keeps)
  moreover have "pl_progress (plugin (fallingLogic pts (slidingLogic s rnd1 rnd2 ?b0))) =
        pl_progress (plugin body) + (0.01 + pl_progress (plugin body) * 0.03)"
    using slidingLogic_path(2) [OF sl fp] by (simp add: fallingLogic_keeps)
  moreover have "pl_state (plugin (fallingLogic pts (slidingLogic s rnd1 rnd2 ?b0))) =
        (if pl_progress (plugin (fallingLogic pts (slidingLogic s rnd1 rnd2 ?b0))) \<ge> 1
         then falling else sliding)"
    using slidingLogic_path(3) [OF sl fp] by (simp add: fallingLogic_keeps)
  ultimately show ?thesis by blast
qed

theorem C6_sliding_bezier_witness:
  "\<not> isStatic body_sliding \<and> pl_state (plugin body_sliding) = sliding \<and>
   isCameraOnRef refs_cam_on \<and> faceLandmarksRef refs_cam_on = Some face_flat \<and>
   (\<exists>b'. tearLogic refs_cam_on 0 [] 0 0 body_sliding = Kept b' \<and>
         position b' = \<lparr>pt_x = 50, pt_y = 50\<rparr> \<and>
         pl_progress (plugin b') = 0.525 \<and>
         pl_state (plugin b') = sliding)"
proof -
  have a: "\<not> isStatic body_sliding" "pl_state (plugin body_sliding) = sliding"
    by (simp_all add: body_sliding_def)
  have c: "isCameraOnRef refs_cam_on" "faceLandmarksRef refs_cam_on = Some face_flat"
    by (simp_all add: refs_cam_on_def)
  have side: "pl_side (plugin body_sliding) = left_side"
    by (simp add: body_sliding_def)
  have i0: "js_index face_flat
      (if pl_side (plugin body_sliding) = left_side then L_EYE else R_EYE)
      = Some \<lparr>lm_x = 0.5, lm_y = 0.5, lm_z = 0\<rparr>"
    by (simp add: side face_flat_index L_EYE_def)
  have i1: "js_index face_flat
      (if pl_side (plugin body_sliding) = left_side then L_CHEEK else R_CHEEK)
      = Some \<lparr>lm_x = 0.5, lm_y = 0.5, lm_z = 0\<rparr>"
    by (simp add: side face_flat_index L_CHEEK_def)
  have i2: "js_index face_flat
      (if pl_side (plugin body_sliding) = left_side then L_DROP else R_DROP)
      = Some \<lparr>lm_x = 0.5, lm_y = 0.5, lm_z = 0\<rparr>"
    by (simp add: side face_flat_index L_DROP_def)
  have prog: "pl_progress (plugin body_sliding) = 0.5" "pl_pathOffset (plugin body_sliding) = 0"
    by (simp_all add: body_sliding_def)
  from C6_sliding_bezier [OF a(1) a(2) c(1) c(2) i0 i1 i2, of 0 "[]" 0 0]
  obtain b' where b': "tearLogic refs_cam_on 0 [] 0 0 body_sliding = Kept b'"
    "position b' = quadratic_bezier_spec (pl_progress (plugin body_sliding))
          (getMappedCoords refs_cam_on 0.5 0.5 True)
          (getMappedCoords refs_cam_on 0.5 0.5 True)
          (getMappedCoords refs_cam_on 0.5 0.5 True)
          (pl_pathOffset (plugin body_sliding))"
    "pl_progress (plugin b') =
        pl_progress (plugin body_sliding) + (0.01 + pl_progress (plugin body_sliding) * 0.03)"
    "pl_state (plugin b') = (if pl_progress (plugin b') \<ge> 1 then falling else sliding)"
    by auto
  have "position b' = \<lparr>pt_x = 50, pt_y = 50\<rparr>"
    using b'(2) by (simp add: mapped_centre_cam quadratic_bezier_spec_def prog power2_eq_square)
  moreover have p: "pl_progress (plugin b') = 0.525"
    using b'(3) by (simp add: prog)
  moreover have "pl_state (plugin b') = sliding"
    using b'(4) p by simp
  ultimately show ?thesis using a c b'(1) by blast
qed


section \<open>Properties of the puppet horses\<close>










section \<open>Properties of the stored landmark references\<close>

lemma spawnLogic_refs:
  "faceLandmarksRef (spawnLogic now rnd s) = faceLandmarksRef s"
  "handLandmarksRef (spawnLogic now rnd s) = handLandmarksRef s"
  by (simp_all add: spawnLogic_def Let_def split: option.splits)

lemma beforeUpdate_refs:
  "faceLandmarksRef (beforeUpdate now rnd s) = faceLandmarksRef s"
  "handLandmarksRef (beforeUpdate now rnd s) = handLandmarksRef s"
  by (simp_all add: beforeUpdate_def Let_def spawnLogic_refs)

lemma afterRender_refs:
  assumes "afterRender env s = Some (s', acts)"
  shows "faceLandmarksRef s' = faceLandmarksRef s" "handLandmarksRef s' = handLandmarksRef s"
  using assms
  by (auto simp add: afterRender_def split: option.splits if_splits)

lemma arStep_refs:
  assumes "arStep s e = Some (s', a)"
  shows "(faceLandmarksRef s', handLandmarksRef s') =
           lastStored (faceLandmarksRef s, handLandmarksRef s) [e]"
  using assms
  by (cases e)
     (auto simp add: faceMesh_onResults_def hands_onResults_def storedFace_def storedHands_def
        beforeUpdate_refs afterRender_refs split: option.splits)

lemma lastStored_Cons:
  "lastStored v (e # es) = lastStored (lastStored v [e]) es"
  by (cases v; cases e) simp_all

lemma arRun_refs:
  assumes "arRun s es = Some (s', acts)"
  shows "(faceLandmarksRef s', handLandmarksRef s') =
           lastStored (faceLandmarksRef s, handLandmarksRef s) es"
  using assms
proof (induction es arbitrary: s acts)
  case Nil
  then show ?case by simp
next
  case (Cons e es)
  from Cons.prems obtain s1 a1 where st: "arStep s e = Some (s1, a1)"
    by (auto split: option.splits)
  with Cons.prems obtain as where run: "arRun s1 es = Some (s', as)"
    by (auto split: option.splits)
  from Cons.IH [OF run] arStep_refs [OF st] show ?case
    by (subst lastStored_Cons) simp
qed

lemma lastStored_no_detector:
  "\<forall>e \<in> set es. \<not> isDetectorEvent e \<Longrightarrow> lastStored v es = v"
proof (induction es)
  case Nil
  then show ?case by simp
next
  case (Cons e es)
  then show ?case by (cases e; cases v) simp_all
qed

text \<open>
  Claim C5. Along any sequence of detector callbacks, physics frames and render frames,
  the stored face and hand landmark sets are exactly what the most recent detector
  callback of each kind stored; in particular, over frames with no detector callback in
  between they are unchanged, so every such frame reads the same, last known set.
\<close>

theorem C5_last_landmarks_reused:
  assumes "arRun s es = Some (s', acts)"
  shows "(faceLandmarksRef s', handLandmarksRef s') =
           lastStored (faceLandmarksRef s, handLandmarksRef s) es \<and>
         ((\<forall>e \<in> set es. \<not> isDetectorEvent e) \<longrightarrow>
            faceLandmarksRef s' = faceLandmarksRef s \<and>
            handLandmarksRef s' = handLandmarksRef s)"
proof -
  have a: "(faceLandmarksRef s', handLandmarksRef s') =
           lastStored (faceLandmarksRef s, handLandmarksRef s) es"
    by (rule arRun_refs [OF assms])
  have "faceLandmarksRef s' = faceLandmarksRef s \<and> handLandmarksRef s' = handLandmarksRef s"
    if "\<forall>e \<in> set es. \<not> isDetectorEvent e"
    using a lastStored_no_detector [OF that, of "(faceLandmarksRef s, handLandmarksRef s)"]
    by simp
  with a show ?thesis by blast
qed

theorem C5_last_landmarks_reused_witness:
  "arRun refs_no_face
     [FaceResults (Some [face_flat]), PhysicsFrame 100 rnd_zero, RenderFrame env_empty,
      PhysicsFrame 116 rnd_zero] =
     Some (beforeUpdate 116 rnd_zero (beforeUpdate 100 rnd_zero
             (faceMesh_onResults (Some [face_flat]) refs_no_face)), [ [], [], [], []]) \<and>
   faceLandmarksRef (beforeUpdate 116 rnd_zero (beforeUpdate 100 rnd_zero
             (faceMesh_onResults (Some [face_flat]) refs_no_face))) = Some face_flat \<and>
   arRun refs_cam_on [PhysicsFrame 100 rnd_zero, RenderFrame env_empty] =
     Some (beforeUpdate 100 rnd_zero refs_cam_on, [ [], []]) \<and>
   faceLandmarksRef (beforeUpdate 100 rnd_zero refs_cam_on) = Some face_flat \<and>
   handLandmarksRef (beforeUpdate 100 rnd_zero refs_cam_on) = None"
proof -
  have h0: "handLandmarksRef (faceMesh_onResults (Some [face_flat]) refs_no_face) = None"
    by (simp add: faceMesh_onResults_def refs_no_face_def refs_cam_on_def)
  have f0: "faceLandmarksRef refs_no_face = None" "handLandmarksRef refs_no_face = None"
    by (simp_all add: refs_no_face_def refs_cam_on_def)
  have f1: "faceLandmarksRef refs_cam_on = Some face_flat" "handLandmarksRef refs_cam_on = None"
    by (simp_all add: refs_cam_on_def)
  have run1: "arRun refs_no_face
     [FaceResults (Some [face_flat]), PhysicsFrame 100 rnd_zero, RenderFrame env_empty,
      PhysicsFrame 116 rnd_zero] =
     Some (beforeUpdate 116 rnd_zero (beforeUpdate 100 rnd_zero
             (faceMesh_onResults (Some [face_flat]) refs_no_face)), [ [], [], [], []])"
    by (simp add: afterRender_def beforeUpdate_refs h0)
  have run2: "arRun refs_cam_on [PhysicsFrame 100 rnd_zero, RenderFrame env_empty] =
     Some (beforeUpdate 100 rnd_zero refs_cam_on, [ [], []])"
    by (simp add: afterRender_def beforeUpdate_refs f1)
  have nd: "\<forall>e \<in> set [PhysicsFrame 100 rnd_zero, RenderFrame env_empty]. \<not> isDetectorEvent e"
    by simp
  show ?thesis
    using run1 run2 nd f0 f1 C5_last_landmarks_reused [OF run1] C5_last_landmarks_reused [OF run2]
    by (simp add: storedFace_def)
qed

section \<open>Properties of the time-slice state machine\<close>

lemma bothHands_total:
  assumes "\<And>l. \<exists>b. p l = Some b"
  shows "\<exists>b. bothHands p hs = Some b"
proof -
  obtain a where a: "p (js_index hs 0) = Some a" using assms by blast
  obtain b where b: "p (js_index hs 1) = Some b" using assms by blast
  show ?thesis using a b by (cases a) (auto simp add: bothHands_def)
qed

lemma bothHands_True:
  "bothHands p hs = Some True \<longleftrightarrow> p (js_index hs 0) = Some True \<and> p (js_index hs 1) = Some True"
  by (auto simp add: bothHands_def bind_eq_Some_conv split: if_splits)

lemma resizeCanvas_keeps:
  "stateRef (resizeCanvas s f) = stateRef s" "rectRef (resizeCanvas s f) = rectRef s"
  "effectModeRef (resizeCanvas s f) = effectModeRef s"
  "resetStartTimeRef (resizeCanvas s f) = resetStartTimeRef s"
  "effectSwitchStartTimeRef (resizeCanvas s f) = effectSwitchStartTimeRef s"
  "zoomLevelRef (resizeCanvas s f) = zoomLevelRef s"
  by (simp_all add: resizeCanvas_def)

lemma idleStep_cases:
  assumes "idleStep s f = Some s1"
  shows "(s1 = s \<and> \<not> (stateRef s = IDLE \<and> twoHands (multiHandLandmarks (results f)) \<and>
              bothHands isPointingUp (the_hands (multiHandLandmarks (results f))) = Some True)) \<or>
         (stateRef s = IDLE \<and> twoHands (multiHandLandmarks (results f)) \<and>
          bothHands isPointingUp (the_hands (multiHandLandmarks (results f))) = Some True \<and>
          s1 = s\<lparr>stateRef := RESIZING\<rparr>)"
  using assms
  by (auto simp add: idleStep_def Let_def bind_eq_Some_conv split: if_splits)

lemma resizingStep_idle:
  assumes "\<not> (stateRef s = RESIZING \<and> twoHands (multiHandLandmarks (results f)))"
  shows "resizingStep s f = Some (s, [])"
  using assms by (auto simp add: resizingStep_def Let_def)

lemma followTips_keeps:
  "stateRef (followTips s g t0 t1) = stateRef s"
  "effectModeRef (followTips s g t0 t1) = effectModeRef s"
  "resetStartTimeRef (followTips s g t0 t1) = resetStartTimeRef s"
  "effectSwitchStartTimeRef (followTips s g t0 t1) = effectSwitchStartTimeRef s"
  "zoomLevelRef (followTips s g t0 t1) = zoomLevelRef s"
  "frozenCanvasRef (followTips s g t0 t1) = frozenCanvasRef s"
  by (simp_all add: followTips_def Let_def)

lemma freeze_fields:
  "stateRef (fst (freeze s f g)) = FROZEN"
  "effectModeRef (fst (freeze s f g)) = effectModeRef s"
  "resetStartTimeRef (fst (freeze s f g)) = resetStartTimeRef s"
  "effectSwitchStartTimeRef (fst (freeze s f g)) = effectSwitchStartTimeRef s"
  "rectRef (fst (freeze s f g)) = rectRef s"
  "frozenCanvasRef (fst (freeze s f g)) =
     map_option (\<lambda>c. c\<lparr>fc_content := Some (image_id (results f), g)\<rparr>) (frozenCanvasRef s)"
  "snd (freeze s f g) = (if frozenCanvasRef s = None then [] else [CaptureFrozenFrame])"
  by (simp_all add: freeze_def split: option.splits)

lemma resizingStep_active:
  assumes "resizingStep s f = Some (s2, a)" "stateRef s = RESIZING"
    "twoHands (multiHandLandmarks (results f))"
  shows "\<exists>t0 t1 b. bothHands isPinching (the_hands (multiHandLandmarks (results f))) = Some b \<and>
           (s2, a) = (if b then freeze (followTips s (frameGeom s f) t0 t1) f (frameGeom s f)
                      else (followTips s (frameGeom s f) t0 t1, []))"
proof -
  from assms obtain t0 t1 b where
    b: "bothHands isPinching (the_hands (multiHandLandmarks (results f))) = Some b" and
    r: "(if b then freeze (followTips s (frameGeom s f) t0 t1) f (frameGeom s f)
         else (followTips s (frameGeom s f) t0 t1, [])) = (s2, a)"
    by (auto simp add: resizingStep_def Let_def bind_eq_Some_conv)
  from b r [symmetric] show ?thesis by blast
qed


lemma resetSystem_fields:
  "stateRef (resetSystem s) = IDLE"
  "rectRef (resetSystem s) = \<lparr>rc_x = 0, rc_y = 0, rc_w = 0, rc_h = 0\<rparr>"
  "effectModeRef (resetSystem s) = NORMAL"
  "resetStartTimeRef (resetSystem s) = None"
  "effectSwitchStartTimeRef (resetSystem s) = None"
  by (simp_all add: resetSystem_def)

lemma resetLogic_actions:
  "snd (resetLogic gesture s f) = (if resetFires gesture s f then [CallResetSystem] else [])"
  by (simp add: resetLogic_def resetFires_def Let_def)

lemma resetLogic_fired:
  assumes "resetFires gesture s f"
  shows "stateRef (fst (resetLogic gesture s f)) = IDLE"
    "rectRef (fst (resetLogic gesture s f)) = \<lparr>rc_x = 0, rc_y = 0, rc_w = 0, rc_h = 0\<rparr>"
    "effectModeRef (fst (resetLogic gesture s f)) = NORMAL"
    "resetStartTimeRef (fst (resetLogic gesture s f)) = None"
    "effectSwitchStartTimeRef (fst (resetLogic gesture s f)) = None"
  using assms by (simp_all add: resetLogic_def resetFires_def Let_def resetSystem_def)

lemma resetLogic_not_fired:
  assumes "\<not> resetFires gesture s f"
  shows "stateRef (fst (resetLogic gesture s f)) = stateRef s"
    "rectRef (fst (resetLogic gesture s f)) = rectRef s"
    "effectModeRef (fst (resetLogic gesture s f)) = effectModeRef s"
    "frozenCanvasRef (fst (resetLogic gesture s f)) = frozenCanvasRef s"
    "effectSwitchStartTimeRef (fst (resetLogic gesture s f)) = effectSwitchStartTimeRef s"
    "resetStartTimeRef (fst (resetLogic gesture s f)) =
       (if gesture then Some (startOr (resetStartTimeRef s) (nowResetStart f)) else None)"
  using assms by (auto simp add: resetLogic_def resetFires_def Let_def)

lemma effectSwitchLogic_actions:
  "snd (effectSwitchLogic victory s f) =
     (if switchFires victory s f then [CallHandleEffectSwitch (nextMode (effectModeRef s))] else [])"
  by (simp add: effectSwitchLogic_def switchFires_def Let_def)

lemma effectSwitchLogic_keeps:
  "stateRef (fst (effectSwitchLogic victory s f)) = stateRef s"
  "rectRef (fst (effectSwitchLogic victory s f)) = rectRef s"
  "resetStartTimeRef (fst (effectSwitchLogic victory s f)) = resetStartTimeRef s"
  "frozenCanvasRef (fst (effectSwitchLogic victory s f)) = frozenCanvasRef s"
  "effectModeRef (fst (effectSwitchLogic victory s f)) =
     (if switchFires victory s f then nextMode (effectModeRef s) else effectModeRef s)"
  "effectSwitchStartTimeRef (fst (effectSwitchLogic victory s f)) =
     (if stateRef s = FROZEN \<and> victory \<and> \<not> switchFires victory s f
      then Some (startOr (effectSwitchStartTimeRef s) (nowSwitchStart f)) else None)"
  by (auto simp add: effectSwitchLogic_def switchFires_def Let_def handleEffectSwitch_def)

lemma onResults_decomp:
  assumes "onResults s f = Some (s', acts)"
  obtains victory s1 s2 a2 gesture where
    "isVictory (multiHandLandmarks (results f)) = Some victory"
    "idleStep (resizeCanvas s f) f = Some s1"
    "resizingStep s1 f = Some (s2, a2)"
    "isResetGesture (multiHandLandmarks (results f)) = Some gesture"
    "s' = fst (effectSwitchLogic victory (fst (resetLogic gesture s2 f)) f)"
    "acts = a2 @ snd (resetLogic gesture s2 f) @
            snd (effectSwitchLogic victory (fst (resetLogic gesture s2 f)) f)"
  using assms
  by (auto simp add: onResults_def Let_def bind_eq_Some_conv case_prod_beta)


lemma frameGeom_cong:
  "canvasWidth a = canvasWidth b \<Longrightarrow> canvasHeight a = canvasHeight b \<Longrightarrow>
   zoomLevelRef a = zoomLevelRef b \<Longrightarrow> frameGeom a f = frameGeom b f"
  by (simp add: frameGeom_def)

lemma stateMachine_summary:
  assumes i: "idleStep s0 f = Some s1" and r: "resizingStep s1 f = Some (s2, a2)"
  shows "stateRef s2 =
           (if entersFrozen (stateRef s0) (multiHandLandmarks (results f)) then FROZEN
            else if entersResizing (stateRef s0) (multiHandLandmarks (results f)) then RESIZING
            else stateRef s0) \<and>
         effectModeRef s2 = effectModeRef s0 \<and>
         resetStartTimeRef s2 = resetStartTimeRef s0 \<and>
         effectSwitchStartTimeRef s2 = effectSwitchStartTimeRef s0 \<and>
         frozenCanvasRef s2 =
           (if entersFrozen (stateRef s0) (multiHandLandmarks (results f))
            then map_option (\<lambda>c. c\<lparr>fc_content := Some (image_id (results f), frameGeom s0 f)\<rparr>)
                   (frozenCanvasRef s0)
            else frozenCanvasRef s0) \<and>
         a2 = (if entersFrozen (stateRef s0) (multiHandLandmarks (results f)) \<and>
                  frozenCanvasRef s0 \<noteq> None then [CaptureFrozenFrame] else [])"
proof -
  let ?H = "multiHandLandmarks (results f)"
  from idleStep_cases [OF i]
  have s1: "s1 = (if entersResizing (stateRef s0) ?H then s0\<lparr>stateRef := RESIZING\<rparr> else s0)"
    by (auto simp add: entersResizing_def)
  have g: "frameGeom s1 f = frameGeom s0 f"
    by (rule frameGeom_cong) (simp_all add: s1)
  show ?thesis
  proof (cases "stateRef s1 = RESIZING \<and> twoHands ?H")
    case False
    then have "(s2, a2) = (s1, [])" using r resizingStep_idle [of s1 f] by simp
    then have e: "s2 = s1" "a2 = []" by simp_all
    from False have nf: "\<not> entersFrozen (stateRef s0) ?H"
      by (auto simp add: s1 entersFrozen_def entersResizing_def split: if_splits)
    show ?thesis
      using nf by (simp add: e s1)
  next
    case True
    then have st1: "stateRef s1 = RESIZING" and two: "twoHands ?H" by simp_all
    from resizingStep_active [OF r st1 two] obtain t0 t1 b where
      b: "bothHands isPinching (the_hands ?H) = Some b" and
      res: "(s2, a2) = (if b then freeze (followTips s1 (frameGeom s1 f) t0 t1) f (frameGeom s1 f)
                      else (followTips s1 (frameGeom s1 f) t0 t1, []))"
      by blast
    from st1 have src: "stateRef s0 = RESIZING \<or> entersResizing (stateRef s0) ?H"
      by (auto simp add: s1 split: if_splits)
    have ef: "entersFrozen (stateRef s0) ?H = b"
      using src two b by (auto simp add: entersFrozen_def entersResizing_def)
    have s2: "s2 = fst (if b then freeze (followTips s1 (frameGeom s1 f) t0 t1) f (frameGeom s1 f)
                      else (followTips s1 (frameGeom s1 f) t0 t1, []))"
      and a2: "a2 = snd (if b then freeze (followTips s1 (frameGeom s1 f) t0 t1) f (frameGeom s1 f)
                      else (followTips s1 (frameGeom s1 f) t0 t1, []))"
      using res [symmetric] by simp_all
    have f1: "frozenCanvasRef s1 = frozenCanvasRef s0" "effectModeRef s1 = effectModeRef s0"
      "resetStartTimeRef s1 = resetStartTimeRef s0"
      "effectSwitchStartTimeRef s1 = effectSwitchStartTimeRef s0"
      by (simp_all add: s1)
    show ?thesis
    proof (cases b)
      case True
      with ef src show ?thesis
        by (simp add: s2 a2 freeze_fields followTips_keeps f1 g)
    next
      case False
      with ef src st1 show ?thesis
        by (auto simp add: s2 a2 followTips_keeps f1)
    qed
  qed
qed

lemma onResults_summary:
  assumes "onResults s f = Some (s', acts)"
  shows "\<exists>gesture victory.
     isResetGesture (multiHandLandmarks (results f)) = Some gesture \<and>
     isVictory (multiHandLandmarks (results f)) = Some victory \<and>
     (let H = multiHandLandmarks (results f);
          st2 = (if entersFrozen (stateRef s) H then FROZEN
                 else if entersResizing (stateRef s) H then RESIZING else stateRef s);
          fired = resetFires gesture s f;
          switched = (\<not> fired \<and> st2 = FROZEN \<and> victory \<and>
                      nowSwitchElapsed f - startOr (effectSwitchStartTimeRef s) (nowSwitchStart f)
                        > 2000)
      in stateRef s' = (if fired then IDLE else st2) \<and>
         (CallResetSystem \<in> set acts \<longleftrightarrow> fired) \<and>
         (fired \<longrightarrow> rectRef s' = \<lparr>rc_x = 0, rc_y = 0, rc_w = 0, rc_h = 0\<rparr> \<and>
                    effectModeRef s' = NORMAL) \<and>
         resetStartTimeRef s' =
           (if gesture \<and> \<not> fired then Some (startOr (resetStartTimeRef s) (nowResetStart f))
            else None) \<and>
         (\<forall>m. CallHandleEffectSwitch m \<in> set acts \<longleftrightarrow>
                switched \<and> m = nextMode (effectModeRef s)) \<and>
         effectModeRef s' = (if fired then NORMAL
                             else if switched then nextMode (effectModeRef s)
                             else effectModeRef s) \<and>
         effectSwitchStartTimeRef s' =
           (if \<not> fired \<and> st2 = FROZEN \<and> victory \<and> \<not> switched
            then Some (startOr (effectSwitchStartTimeRef s) (nowSwitchStart f)) else None) \<and>
         (\<not> fired \<longrightarrow>
            frozenCanvasRef s' =
              (if entersFrozen (stateRef s) H
               then map_option (\<lambda>c. c\<lparr>fc_content :=
                        Some (image_id (results f), frameGeom (resizeCanvas s f) f)\<rparr>)
                      (frozenCanvasRef (resizeCanvas s f))
               else frozenCanvasRef (resizeCanvas s f))) \<and>
         (CaptureFrozenFrame \<in> set acts \<longleftrightarrow>
            entersFrozen (stateRef s) H \<and> frozenCanvasRef (resizeCanvas s f) \<noteq> None))"
proof -
  let ?H = "multiHandLandmarks (results f)"
  from onResults_decomp [OF assms] obtain victory s1 s2 a2 gesture where
    v: "isVictory ?H = Some victory" and
    i: "idleStep (resizeCanvas s f) f = Some s1" and
    r: "resizingStep s1 f = Some (s2, a2)" and
    g: "isResetGesture ?H = Some gesture" and
    s': "s' = fst (effectSwitchLogic victory (fst (resetLogic gesture s2 f)) f)" and
    acts: "acts = a2 @ snd (resetLogic gesture s2 f) @
            snd (effectSwitchLogic victory (fst (resetLogic gesture s2 f)) f)"
    by blast
  note sm = stateMachine_summary [OF i r, unfolded resizeCanvas_keeps]
  have rf: "resetFires gesture s2 f = resetFires gesture s f"
    using sm by (simp add: resetFires_def resizeCanvas_keeps)
  show ?thesis
  proof (intro exI conjI)
    show "isResetGesture ?H = Some gesture" by (rule g)
    show "isVictory ?H = Some victory" by (rule v)
    show "let H = multiHandLandmarks (results f);
          st2 = (if entersFrozen (stateRef s) H then FROZEN
                 else if entersResizing (stateRef s) H then RESIZING else stateRef s);
          fired = resetFires gesture s f;
          switched = (\<not> fired \<and> st2 = FROZEN \<and> victory \<and>
                      nowSwitchElapsed f - startOr (effectSwitchStartTimeRef s) (nowSwitchStart f)
                        > 2000)
      in stateRef s' = (if fired then IDLE else st2) \<and>
         (CallResetSystem \<in> set acts \<longleftrightarrow> fired) \<and>
         (fired \<longrightarrow> rectRef s' = \<lparr>rc_x = 0, rc_y = 0, rc_w = 0, rc_h = 0\<rparr> \<and>
                    effectModeRef s' = NORMAL) \<and>
         resetStartTimeRef s' =
           (if gesture \<and> \<not> fired then Some (startOr (resetStartTimeRef s) (nowResetStart f))
            else None) \<and>
         (\<forall>m. CallHandleEffectSwitch m \<in> set acts \<longleftrightarrow>
                switched \<and> m = nextMode (effectModeRef s)) \<and>
         effectModeRef s' = (if fired then NORMAL
                             else if switched then nextMode (effectModeRef s)
                             else effectModeRef s) \<and>
         effectSwitchStartTimeRef s' =
           (if \<not> fired \<and> st2 = FROZEN \<and> victory \<and> \<not> switched
            then Some (startOr (effectSwitchStartTimeRef s) (nowSwitchStart f)) else None) \<and>
         (\<not> fired \<longrightarrow>
            frozenCanvasRef s' =
              (if entersFrozen (stateRef s) H
               then map_option (\<lambda>c. c\<lparr>fc_content :=
                        Some (image_id (results f), frameGeom (resizeCanvas s f) f)\<rparr>)
                      (frozenCanvasRef (resizeCanvas s f))
               else frozenCanvasRef (resizeCanvas s f))) \<and>
         (CaptureFrozenFrame \<in> set acts \<longleftrightarrow>
            entersFrozen (stateRef s) H \<and> frozenCanvasRef (resizeCanvas s f) \<noteq> None)"
    proof (cases "resetFires gesture s f")
      case True
      then have t2: "resetFires gesture s2 f" by (simp add: rf)
      show ?thesis
        using True sm
        by (simp add: Let_def s' acts effectSwitchLogic_keeps effectSwitchLogic_actions
            resetLogic_actions resetLogic_fired [OF t2] switchFires_def t2)
    next
      case False
      then have t2: "\<not> resetFires gesture s2 f" by (simp add: rf)
      show ?thesis
        using False sm
        by (auto simp add: Let_def s' acts effectSwitchLogic_keeps effectSwitchLogic_actions
            resetLogic_actions resetLogic_not_fired [OF t2] switchFires_def t2 resetFires_def)
    qed
  qed
qed

lemma those_map_total:
  assumes "\<And>x. x \<in> set xs \<Longrightarrow> \<exists>y. g x = Some y"
  shows "\<exists>ys. those (map g xs) = Some ys"
  using assms
proof (induction xs)
  case Nil
  then show ?case by simp
next
  case (Cons x xs)
  then obtain y where "g x = Some y" by auto
  moreover from Cons obtain ys where "those (map g xs) = Some ys" by auto
  ultimately show ?case by simp
qed

lemma isVictory_total: "\<exists>b. isVictory hands = Some b"
proof (cases hands)
  case None
  then show ?thesis by (auto simp add: isVictory_def)
next
  case (Some hs)
  obtain bs where "those (map (\<lambda>h. isVictoryHand (Some h)) hs) = Some bs"
    using those_map_total [of hs "\<lambda>h. isVictoryHand (Some h)"] isVictoryHand_total by blast
  then show ?thesis using Some by (auto simp add: isVictory_def)
qed

lemma isResetGesture_total: "\<exists>b. isResetGesture hands = Some b"
proof (cases hands)
  case None
  then show ?thesis by (auto simp add: isResetGesture_def)
next
  case (Some hs)
  then show ?thesis
    using bothHands_total [of isHandClosed hs] isHandClosed_total
    by (auto simp add: isResetGesture_def)
qed

lemma idleStep_total: "\<exists>s1. idleStep s f = Some s1"
proof -
  obtain b where "bothHands isPointingUp (the_hands (multiHandLandmarks (results f))) = Some b"
    using bothHands_total [of isPointingUp] isPointingUp_total by blast
  then show ?thesis by (simp add: idleStep_def Let_def)
qed

lemma resizingStep_total:
  assumes "\<forall>h \<in> set (the_hands (multiHandLandmarks (results f))). 9 \<le> length h"
  shows "\<exists>x. resizingStep s f = Some x"
proof (cases "stateRef s = RESIZING \<and> twoHands (multiHandLandmarks (results f))")
  case False
  then show ?thesis using resizingStep_idle [of s f] by simp
next
  case True
  let ?hs = "the_hands (multiHandLandmarks (results f))"
  from True have len: "length ?hs = 2"
    by (auto simp add: twoHands_def the_hands_def split: option.splits)
  then have h0: "js_index ?hs 0 = Some (?hs ! 0)" and h1: "js_index ?hs 1 = Some (?hs ! 1)"
    by (simp_all add: js_index_def)
  from len have "?hs ! 0 \<in> set ?hs" "?hs ! 1 \<in> set ?hs" by simp_all
  with assms have "9 \<le> length (?hs ! 0)" "9 \<le> length (?hs ! 1)" by blast+
  then have t0: "js_index (?hs ! 0) 8 = Some (?hs ! 0 ! 8)"
    and t1: "js_index (?hs ! 1) 8 = Some (?hs ! 1 ! 8)"
    by (simp_all add: js_index_def)
  obtain b where b: "bothHands isPinching ?hs = Some b"
    using bothHands_total [of isPinching] isPinching_total by blast
  show ?thesis
    using True h0 h1 t0 t1 b by (simp add: resizingStep_def Let_def)
qed

lemma onResults_total:
  assumes "\<forall>h \<in> set (the_hands (multiHandLandmarks (results f))). 9 \<le> length h"
  shows "\<exists>s' acts. onResults s f = Some (s', acts)"
proof -
  obtain v where v: "isVictory (multiHandLandmarks (results f)) = Some v"
    using isVictory_total by blast
  obtain s1 where s1: "idleStep (resizeCanvas s f) f = Some s1"
    using idleStep_total by blast
  obtain x where x: "resizingStep s1 f = Some x"
    using resizingStep_total [OF assms] by blast
  obtain g where g: "isResetGesture (multiHandLandmarks (results f)) = Some g"
    using isResetGesture_total by blast
  show ?thesis
    by (simp add: onResults_def Let_def v s1 x g case_prod_beta)
qed

lemma hand_point_pinch_poses:
  "isPointingUp (Some hand_point_pinch) = Some True"
  "isPinching (Some hand_point_pinch) = Some True"
  "isHandClosed (Some hand_point_pinch) = Some False"
  "isVictoryHand (Some hand_point_pinch) = Some False"
  by (simp_all add: isPointingUp_full isPinching_full isHandClosed_full isVictoryHand_full
      length_hand_point_pinch)
     (simp_all add: hand_point_pinch_def mk_hand_def)

lemma hand_point_poses:
  "isPointingUp (Some hand_point) = Some True"
  "isPinching (Some hand_point) = Some False"
  "isHandClosed (Some hand_point) = Some False"
  "isVictoryHand (Some hand_point) = Some False"
  by (simp_all add: isPointingUp_full isPinching_full isHandClosed_full isVictoryHand_full
      length_hand_point)
     (simp_all add: hand_point_def mk_hand_def)

lemma bothHands_same: "bothHands p [h, h] = (case p (Some h) of None \<Rightarrow> None | Some b \<Rightarrow> Some b)"
  by (simp add: bothHands_def js_index_def split: option.splits)

lemma mk_frame_hands: "multiHandLandmarks (results (mk_frame hands t)) = hands"
  by (simp add: mk_frame_def)

text \<open>
  Claim C10, amended. In one callback the state machine runs its two blocks one after
  the other and then the reset logic, so per frame: RESIZING is entered only from IDLE,
  by exactly two hands that both satisfy isPointingUp; FROZEN is entered only by exactly
  two hands that both satisfy isPinching, from RESIZING or, within the same frame, from
  IDLE when the two hands also both satisfy isPointingUp, and the image of that frame is
  then drawn on the off-screen canvas (if it exists); IDLE is entered only by resetSystem,
  which also sets the selection rect to zero and the effect mode to NORMAL; and FROZEN is
  followed by FROZEN or IDLE only, never by RESIZING.
\<close>

theorem C10_state_transitions:
  assumes "onResults s f = Some (s', acts)"
  shows "(stateRef s' = RESIZING \<longrightarrow>
            stateRef s = RESIZING \<or> entersResizing (stateRef s) (multiHandLandmarks (results f))) \<and>
         (stateRef s' = FROZEN \<longrightarrow>
            stateRef s = FROZEN \<or> entersFrozen (stateRef s) (multiHandLandmarks (results f))) \<and>
         (stateRef s' = IDLE \<longrightarrow> stateRef s = IDLE \<or> CallResetSystem \<in> set acts) \<and>
         (CallResetSystem \<in> set acts \<longrightarrow>
            stateRef s' = IDLE \<and> rectRef s' = \<lparr>rc_x = 0, rc_y = 0, rc_w = 0, rc_h = 0\<rparr> \<and>
            effectModeRef s' = NORMAL) \<and>
         (stateRef s = FROZEN \<longrightarrow> stateRef s' = FROZEN \<or> stateRef s' = IDLE) \<and>
         (CallResetSystem \<notin> set acts \<longrightarrow>
            (entersFrozen (stateRef s) (multiHandLandmarks (results f)) \<longrightarrow>
               stateRef s' = FROZEN \<and>
               frozenCanvasRef s' =
                 map_option (\<lambda>c. c\<lparr>fc_content :=
                     Some (image_id (results f), frameGeom (resizeCanvas s f) f)\<rparr>)
                   (frozenCanvasRef (resizeCanvas s f))) \<and>
            (entersResizing (stateRef s) (multiHandLandmarks (results f)) \<and>
             \<not> entersFrozen (stateRef s) (multiHandLandmarks (results f)) \<longrightarrow>
               stateRef s' = RESIZING)) \<and>
         stateRef (resetSystem s) = IDLE \<and>
         rectRef (resetSystem s) = \<lparr>rc_x = 0, rc_y = 0, rc_w = 0, rc_h = 0\<rparr> \<and>
         effectModeRef (resetSystem s) = NORMAL"
proof -
  from onResults_summary [OF assms] obtain gesture victory where
    sm: "(let H = multiHandLandmarks (results f);
          st2 = (if entersFrozen (stateRef s) H then FROZEN
                 else if entersResizing (stateRef s) H then RESIZING else stateRef s);
          fired = resetFires gesture s f
      in stateRef s' = (if fired then IDLE else st2) \<and>
         (CallResetSystem \<in> set acts \<longleftrightarrow> fired) \<and>
         (fired \<longrightarrow> rectRef s' = \<lparr>rc_x = 0, rc_y = 0, rc_w = 0, rc_h = 0\<rparr> \<and>
                    effectModeRef s' = NORMAL) \<and>
         (\<not> fired \<longrightarrow>
            frozenCanvasRef s' =
              (if entersFrozen (stateRef s) H
               then map_option (\<lambda>c. c\<lparr>fc_content :=
                        Some (image_id (results f), frameGeom (resizeCanvas s f) f)\<rparr>)
                      (frozenCanvasRef (resizeCanvas s f))
               else frozenCanvasRef (resizeCanvas s f))))"
    by (auto simp add: Let_def)
  have ef: "entersFrozen FROZEN H = False" "entersResizing FROZEN H = False"
    "entersResizing RESIZING H = False" for H
    by (simp_all add: entersFrozen_def entersResizing_def)
  show ?thesis
    using sm
    by (cases "stateRef s"; cases "resetFires gesture s f")
       (auto simp add: Let_def resetSystem_fields ef split: if_splits)
qed

theorem C10_state_transitions_witness:
  "\<exists>s' acts. onResults initialRefs frame_point = Some (s', acts) \<and>
     stateRef initialRefs = IDLE \<and> stateRef s' = RESIZING \<and>
     entersResizing IDLE (multiHandLandmarks (results frame_point))"
proof -
  let ?H = "multiHandLandmarks (results frame_point)"
  have H: "?H = Some [hand_point, hand_point]"
    by (simp add: frame_point_def mk_frame_hands)
  have wf: "\<forall>h \<in> set (the_hands ?H). 9 \<le> length h"
    by (simp add: H the_hands_def length_hand_point)
  from onResults_total [OF wf, of initialRefs] obtain s' acts where
    run: "onResults initialRefs frame_point = Some (s', acts)" by blast
  have idle: "stateRef initialRefs = IDLE" by (simp add: initialRefs_def)
  have er: "entersResizing IDLE ?H"
    by (simp add: H entersResizing_def twoHands_def the_hands_def bothHands_same hand_point_poses)
  have nf: "\<not> entersFrozen IDLE ?H"
    by (simp add: H entersFrozen_def twoHands_def the_hands_def bothHands_same hand_point_poses)
  have nr: "isResetGesture ?H = Some False"
    by (simp add: H isResetGesture_def bothHands_same hand_point_poses)
  have "CallResetSystem \<notin> set acts"
    using onResults_summary [OF run] nr by (auto simp add: Let_def resetFires_def)
  with C10_state_transitions [OF run] er nf idle have "stateRef s' = RESIZING" by simp
  with run idle er show ?thesis by blast
qed

text \<open>
  Claim C10, as stated, fails: a single frame can take the state from IDLE to FROZEN,
  which is none of the listed per-frame transitions. Two hands that point up with the
  thumb tip on the index tip satisfy isPointingUp and isPinching at once.
\<close>

theorem C10_idle_to_frozen_counterexample:
  "stateRef initialRefs = IDLE \<and>
   map_option (\<lambda>r. stateRef (fst r)) (onResults initialRefs frame_point_pinch) = Some FROZEN"
proof -
  let ?H = "multiHandLandmarks (results frame_point_pinch)"
  have H: "?H = Some [hand_point_pinch, hand_point_pinch]"
    by (simp add: frame_point_pinch_def mk_frame_hands)
  have wf: "\<forall>h \<in> set (the_hands ?H). 9 \<le> length h"
    by (simp add: H the_hands_def length_hand_point_pinch)
  from onResults_total [OF wf, of initialRefs] obtain s' acts where
    run: "onResults initialRefs frame_point_pinch = Some (s', acts)" by blast
  have idle: "stateRef initialRefs = IDLE" by (simp add: initialRefs_def)
  have ef: "entersFrozen IDLE ?H"
    by (simp add: H entersFrozen_def twoHands_def the_hands_def bothHands_same
        hand_point_pinch_poses)
  have nr: "isResetGesture ?H = Some False"
    by (simp add: H isResetGesture_def bothHands_same hand_point_pinch_poses)
  have "stateRef s' = FROZEN"
    using onResults_summary [OF run] nr ef idle by (auto simp add: Let_def resetFires_def)
  with run idle show ?thesis by simp
qed

section \<open>Properties of the dwell timers\<close>

lemma startOr_falsy: "v = None \<or> v = Some 0 \<Longrightarrow> startOr v now = now"
  by (auto simp add: startOr_def)

lemma startOr_Some: "t \<noteq> 0 \<Longrightarrow> startOr (Some t) now = t"
  by (simp add: startOr_def)

lemma dwell_invariant:
  fixes timer :: "nat \<Rightarrow> int option" and startT :: "nat \<Rightarrow> int"
  assumes init: "timer 0 = None \<or> timer 0 = Some 0"
    and step: "\<And>i. i < n \<Longrightarrow>
        timer (Suc i) = None \<or> (held i \<and> timer (Suc i) = Some (startOr (timer i) (startT i)))"
  shows "i \<le> n \<Longrightarrow>
         timer i = None \<or> timer i = Some 0 \<or>
         (\<exists>k<i. timer i = Some (startT k) \<and> (\<forall>j. k \<le> j \<and> j < i \<longrightarrow> held j))"
proof (induction i)
  case 0
  then show ?case using init by simp
next
  case (Suc i)
  then have lt: "i < n" by simp
  from Suc have IH: "timer i = None \<or> timer i = Some 0 \<or>
         (\<exists>k<i. timer i = Some (startT k) \<and> (\<forall>j. k \<le> j \<and> j < i \<longrightarrow> held j))" by simp
  from step [OF lt] show ?case
  proof
    assume "timer (Suc i) = None"
    then show ?thesis by simp
  next
    assume a: "held i \<and> timer (Suc i) = Some (startOr (timer i) (startT i))"
    show ?thesis
    proof (cases "timer i = None \<or> timer i = Some 0")
      case True
      then have "timer (Suc i) = Some (startT i)" using a by (simp add: startOr_falsy)
      moreover have "\<forall>j. i \<le> j \<and> j < Suc i \<longrightarrow> held j" using a by (auto simp add: less_Suc_eq_le)
      ultimately show ?thesis by blast
    next
      case False
      with IH obtain k where k: "k < i" "timer i = Some (startT k)"
        "\<forall>j. k \<le> j \<and> j < i \<longrightarrow> held j" by blast
      from False k(2) have "startT k \<noteq> 0" by simp
      then have "timer (Suc i) = Some (startT k)" using a k(2) by (simp add: startOr_Some)
      moreover have "\<forall>j. k \<le> j \<and> j < Suc i \<longrightarrow> held j"
        using a k(3) by (auto simp add: less_Suc_eq)
      moreover have "k < Suc i" using k(1) by simp
      ultimately show ?thesis by blast
    qed
  qed
qed

lemma dwell_generic:
  fixes timer :: "nat \<Rightarrow> int option" and startT elapsedT :: "nat \<Rightarrow> int"
  assumes init: "timer 0 = None \<or> timer 0 = Some 0"
    and step: "\<And>i. i < n \<Longrightarrow>
        timer (Suc i) = None \<or> (held i \<and> timer (Suc i) = Some (startOr (timer i) (startT i)))"
    and fire: "\<And>i. i < n \<Longrightarrow> fired i \<Longrightarrow>
        held i \<and> elapsedT i - startOr (timer i) (startT i) > thr"
    and i: "i < n" "fired i"
  shows "\<exists>k\<le>i. (\<forall>j. k \<le> j \<and> j \<le> i \<longrightarrow> held j) \<and> elapsedT i - startT k > thr"
proof -
  from fire [OF i] have h: "held i" and e: "elapsedT i - startOr (timer i) (startT i) > thr"
    by simp_all
  from i(1) have "i \<le> n" by simp
  from dwell_invariant [of timer n held startT i, OF init step this]
  have inv: "timer i = None \<or> timer i = Some 0 \<or>
         (\<exists>k<i. timer i = Some (startT k) \<and> (\<forall>j. k \<le> j \<and> j < i \<longrightarrow> held j))"
    by blast
  show ?thesis
  proof (cases "timer i = None \<or> timer i = Some 0")
    case True
    then have "elapsedT i - startT i > thr" using e by (simp add: startOr_falsy)
    moreover have "\<forall>j. i \<le> j \<and> j \<le> i \<longrightarrow> held j" using h by auto
    ultimately show ?thesis by blast
  next
    case False
    with inv obtain k where k: "k < i" "timer i = Some (startT k)"
      "\<forall>j. k \<le> j \<and> j < i \<longrightarrow> held j" by blast
    from False k(2) have "startT k \<noteq> 0" by simp
    then have "elapsedT i - startT k > thr" using e k(2) by (simp add: startOr_Some)
    moreover have "\<forall>j. k \<le> j \<and> j \<le> i \<longrightarrow> held j"
      using h k(3) by (auto simp add: le_less)
    moreover have "k \<le> i" using k(1) by simp
    ultimately show ?thesis by blast
  qed
qed

lemma runStates_length: "runStates s fs = Some rs \<Longrightarrow> length rs = length fs"
  by (induction fs arbitrary: s rs) (auto split: option.splits)

lemma runStates_nth:
  "runStates s fs = Some rs \<Longrightarrow> i < length fs \<Longrightarrow>
   onResults ((s # map fst rs) ! i) (fs ! i) = Some (rs ! i)"
proof (induction fs arbitrary: s rs i)
  case Nil
  then show ?case by simp
next
  case (Cons f fs)
  from Cons.prems(1) obtain s' a rs' where
    st: "onResults s f = Some (s', a)" and run: "runStates s' fs = Some rs'"
    and rs: "rs = (s', a) # rs'"
    by (auto split: option.splits)
  show ?case
  proof (cases i)
    case 0
    then show ?thesis using st rs by simp
  next
    case (Suc i')
    with Cons.prems(2) have "i' < length fs" by simp
    from Cons.IH [OF run this] show ?thesis using Suc rs by simp
  qed
qed

lemma reset_dwell_trace:
  assumes run: "runStates s0 fs = Some rs"
    and init: "resetStartTimeRef s0 = None"
    and i: "i < length fs" and fired: "CallResetSystem \<in> set (snd (rs ! i))"
  shows "\<exists>k\<le>i. (\<forall>j. k \<le> j \<and> j \<le> i \<longrightarrow>
                     isResetGesture (multiHandLandmarks (results (fs ! j))) = Some True) \<and>
               nowResetElapsed (fs ! i) - nowResetStart (fs ! k) > 1500"
proof (rule dwell_generic [where timer = "\<lambda>i. resetStartTimeRef ((s0 # map fst rs) ! i)"
      and n = "length fs" and fired = "\<lambda>i. CallResetSystem \<in> set (snd (rs ! i))"
      and held = "\<lambda>j. isResetGesture (multiHandLandmarks (results (fs ! j))) = Some True"
      and startT = "\<lambda>k. nowResetStart (fs ! k)" and elapsedT = "\<lambda>i. nowResetElapsed (fs ! i)"])
  show "resetStartTimeRef ((s0 # map fst rs) ! 0) = None \<or>
        resetStartTimeRef ((s0 # map fst rs) ! 0) = Some 0" using init by simp
next
  fix i assume lt: "i < length fs"
  have len: "length rs = length fs" by (rule runStates_length [OF run])
  obtain s' a where ri: "rs ! i = (s', a)" by (cases "rs ! i")
  have nx: "(s0 # map fst rs) ! Suc i = s'" using lt len ri by simp
  from runStates_nth [OF run lt] ri
  have st: "onResults ((s0 # map fst rs) ! i) (fs ! i) = Some (s', a)" by simp
  from onResults_summary [OF st]
  show "resetStartTimeRef ((s0 # map fst rs) ! Suc i) = None \<or>
        isResetGesture (multiHandLandmarks (results (fs ! i))) = Some True \<and>
        resetStartTimeRef ((s0 # map fst rs) ! Suc i) =
          Some (startOr (resetStartTimeRef ((s0 # map fst rs) ! i)) (nowResetStart (fs ! i)))"
    unfolding nx by (auto simp add: Let_def split: if_splits)
next
  fix i assume lt: "i < length fs" and f: "CallResetSystem \<in> set (snd (rs ! i))"
  obtain s' a where ri: "rs ! i = (s', a)" by (cases "rs ! i")
  from runStates_nth [OF run lt] ri
  have st: "onResults ((s0 # map fst rs) ! i) (fs ! i) = Some (s', a)" by simp
  from onResults_summary [OF st] f ri
  show "isResetGesture (multiHandLandmarks (results (fs ! i))) = Some True \<and>
        1500 < nowResetElapsed (fs ! i) -
               startOr (resetStartTimeRef ((s0 # map fst rs) ! i)) (nowResetStart (fs ! i))"
    by (auto simp add: Let_def resetFires_def)
next
  show "i < length fs" by (rule i)
  show "CallResetSystem \<in> set (snd (rs ! i))" by (rule fired)
qed

lemma switch_dwell_trace:
  assumes run: "runStates s0 fs = Some rs"
    and init: "effectSwitchStartTimeRef s0 = None"
    and i: "i < length fs" and fired: "\<exists>m. CallHandleEffectSwitch m \<in> set (snd (rs ! i))"
  shows "\<exists>k\<le>i. (\<forall>j. k \<le> j \<and> j \<le> i \<longrightarrow>
                     isVictory (multiHandLandmarks (results (fs ! j))) = Some True) \<and>
               nowSwitchElapsed (fs ! i) - nowSwitchStart (fs ! k) > 2000"
proof (rule dwell_generic [where timer = "\<lambda>i. effectSwitchStartTimeRef ((s0 # map fst rs) ! i)"
      and n = "length fs" and fired = "\<lambda>i. \<exists>m. CallHandleEffectSwitch m \<in> set (snd (rs ! i))"
      and held = "\<lambda>j. isVictory (multiHandLandmarks (results (fs ! j))) = Some True"
      and startT = "\<lambda>k. nowSwitchStart (fs ! k)" and elapsedT = "\<lambda>i. nowSwitchElapsed (fs ! i)"])
  show "effectSwitchStartTimeRef ((s0 # map fst rs) ! 0) = None \<or>
        effectSwitchStartTimeRef ((s0 # map fst rs) ! 0) = Some 0" using init by simp
next
  fix i assume lt: "i < length fs"
  have len: "length rs = length fs" by (rule runStates_length [OF run])
  obtain s' a where ri: "rs ! i = (s', a)" by (cases "rs ! i")
  have nx: "(s0 # map fst rs) ! Suc i = s'" using lt len ri by simp
  from runStates_nth [OF run lt] ri
  have st: "onResults ((s0 # map fst rs) ! i) (fs ! i) = Some (s', a)" by simp
  from onResults_summary [OF st]
  show "effectSwitchStartTimeRef ((s0 # map fst rs) ! Suc i) = None \<or>
        isVictory (multiHandLandmarks (results (fs ! i))) = Some True \<and>
        effectSwitchStartTimeRef ((s0 # map fst rs) ! Suc i) =
          Some (startOr (effectSwitchStartTimeRef ((s0 # map fst rs) ! i)) (nowSwitchStart (fs ! i)))"
    unfolding nx by (auto simp add: Let_def split: if_splits)
next
  fix i assume lt: "i < length fs" and f: "\<exists>m. CallHandleEffectSwitch m \<in> set (snd (rs ! i))"
  obtain s' a where ri: "rs ! i = (s', a)" by (cases "rs ! i")
  from runStates_nth [OF run lt] ri
  have st: "onResults ((s0 # map fst rs) ! i) (fs ! i) = Some (s', a)" by simp
  from onResults_summary [OF st] f ri
  show "isVictory (multiHandLandmarks (results (fs ! i))) = Some True \<and>
        2000 < nowSwitchElapsed (fs ! i) -
               startOr (effectSwitchStartTimeRef ((s0 # map fst rs) ! i)) (nowSwitchStart (fs ! i))"
    by (auto simp add: Let_def)
next
  show "i < length fs" by (rule i)
  show "\<exists>m. CallHandleEffectSwitch m \<in> set (snd (rs ! i))" by (rule fired)
qed

lemma dwell_absent_restarts:
  assumes "onResults s f = Some (s', acts)"
  shows "isResetGesture (multiHandLandmarks (results f)) \<noteq> Some True \<longrightarrow>
           CallResetSystem \<notin> set acts \<and> resetStartTimeRef s' = None"
    and "isVictory (multiHandLandmarks (results f)) \<noteq> Some True \<longrightarrow>
           (\<forall>m. CallHandleEffectSwitch m \<notin> set acts) \<and> effectSwitchStartTimeRef s' = None"
  using onResults_summary [OF assms]
  by (auto simp add: Let_def resetFires_def)

lemma hand_point_nth:
  "js_index hand_point 0 = Some \<lparr>lm_x = 0.5, lm_y = 0.9, lm_z = 0\<rparr>"
  "js_index hand_point 6 = Some \<lparr>lm_x = 0.5, lm_y = 0.5, lm_z = 0\<rparr>"
  "js_index hand_point 8 = Some \<lparr>lm_x = 0.5, lm_y = 0.3, lm_z = 0\<rparr>"
  "js_index hand_point 10 = Some \<lparr>lm_x = 0.6, lm_y = 0.5, lm_z = 0\<rparr>"
  "js_index hand_point 12 = Some \<lparr>lm_x = 0.6, lm_y = 0.6, lm_z = 0\<rparr>"
  "js_index hand_point 14 = Some \<lparr>lm_x = 0.7, lm_y = 0.5, lm_z = 0\<rparr>"
  "js_index hand_point 16 = Some \<lparr>lm_x = 0.7, lm_y = 0.6, lm_z = 0\<rparr>"
  "js_index hand_point 18 = Some \<lparr>lm_x = 0.8, lm_y = 0.5, lm_z = 0\<rparr>"
  "js_index hand_point 20 = Some \<lparr>lm_x = 0.8, lm_y = 0.6, lm_z = 0\<rparr>"
  by (simp_all add: js_index_def hand_point_def mk_hand_def)

lemma hand_victory_nth:
  "js_index hand_victory 0 = Some \<lparr>lm_x = 0.5, lm_y = 0.9, lm_z = 0\<rparr>"
  "js_index hand_victory 6 = Some \<lparr>lm_x = 0.5, lm_y = 0.5, lm_z = 0\<rparr>"
  "js_index hand_victory 8 = Some \<lparr>lm_x = 0.5, lm_y = 0.3, lm_z = 0\<rparr>"
  "js_index hand_victory 10 = Some \<lparr>lm_x = 0.6, lm_y = 0.5, lm_z = 0\<rparr>"
  "js_index hand_victory 12 = Some \<lparr>lm_x = 0.6, lm_y = 0.3, lm_z = 0\<rparr>"
  "js_index hand_victory 14 = Some \<lparr>lm_x = 0.7, lm_y = 0.5, lm_z = 0\<rparr>"
  "js_index hand_victory 16 = Some \<lparr>lm_x = 0.7, lm_y = 0.6, lm_z = 0\<rparr>"
  "js_index hand_victory 18 = Some \<lparr>lm_x = 0.8, lm_y = 0.5, lm_z = 0\<rparr>"
  "js_index hand_victory 20 = Some \<lparr>lm_x = 0.8, lm_y = 0.6, lm_z = 0\<rparr>"
  by (simp_all add: js_index_def hand_victory_def mk_hand_def)

lemmas finger_indices = INDEX_FINGER_TIP_def INDEX_FINGER_PIP_def MIDDLE_FINGER_TIP_def
  MIDDLE_FINGER_PIP_def RING_FINGER_TIP_def RING_FINGER_PIP_def PINKY_TIP_def PINKY_PIP_def

lemma handInteract_point_button:
  "handInteract s (env_button t) li hand_point =
     Some (buttonLogic t li \<lparr>el_slider = None, el_button = Some 7\<rparr>)"
  by (simp add: handInteract_def finger_indices hand_point_nth dist_def env_button_def
      sliderLogic_def Let_def power2_eq_square split: prod.splits)

lemma handInteract_victory:
  "handInteract s env li hand_victory = Some (li\<lparr>li_element := None\<rparr>, [])"
  by (simp add: handInteract_def finger_indices hand_victory_nth dist_def
      Let_def power2_eq_square)

lemma afterRender_no_hands:
  "handLandmarksRef s = None \<Longrightarrow> afterRender env s = Some (s, [])"
  by (simp add: afterRender_def)

lemma afterRender_one_hand:
  "handLandmarksRef s = Some [hand] \<Longrightarrow> isCameraOnRef s \<Longrightarrow>
   afterRender env s =
     map_option (\<lambda>(li, a). (s\<lparr>lastInteractRef := li\<rparr>, a)) (handInteract s env (lastInteractRef s) hand)"
  by (simp add: afterRender_def split: option.splits)

text \<open>
  Claim C3 at the pointing-finger button click. A hand points at button 7 at 1000 ms, no
  hand is detected at 1300 ms, and the hand points at the button again at 1700 ms: the
  button is clicked at 1700 ms, although the gesture was absent in between and has been
  held for no 600 ms. When the frame at 1300 ms shows a hand in another pose instead, the
  timer restarts and nothing is clicked.
\<close>

theorem C3_button_dwell_lost_hand:
  "map_option snd (arRun refs_cam_on lost_hand_events) =
     Some [ [], [], [], [], [], [ClickButton 7]] \<and>
   map_option snd (arRun refs_cam_on other_pose_events) = Some [ [], [], [], [], [], []]"
  by (simp add: lost_hand_events_def other_pose_events_def hands_onResults_def
      afterRender_no_hands afterRender_one_hand handInteract_point_button handInteract_victory
      buttonLogic_def refs_cam_on_def Let_def)


section \<open>Properties of the grid stretch\<close>

lemma js_set_in_range: "i < length xs \<Longrightarrow> js_set xs i v = xs[i := v]"
  by (simp add: js_set_def)





































lemma grid_ok_wf: "grid_ok g \<Longrightarrow> wf_grid g"
  by (simp add: grid_ok_def weights_ok_def wf_grid_def)




section \<open>Runs of the time-slice state machine\<close>

text \<open>Along any run of callbacks, a RESIZING state after a FROZEN one has an IDLE state
  strictly in between.\<close>

lemma frozen_successor:
  assumes "onResults s f = Some (s', acts)" "stateRef s = FROZEN"
  shows "stateRef s' = FROZEN \<or> stateRef s' = IDLE"
  using onResults_summary [OF assms(1)] assms(2)
  by (auto simp add: Let_def entersFrozen_def entersResizing_def split: if_splits)

lemma runStates_step:
  assumes "runStates s0 fs = Some rs" "Suc m < length rs"
  shows "onResults (fst (rs ! m)) (fs ! Suc m) = Some (rs ! Suc m)"
proof -
  have len: "length rs = length fs" by (rule runStates_length [OF assms(1)])
  with assms(2) have "Suc m < length fs" by simp
  from runStates_nth [OF assms(1) this] assms(2) show ?thesis by simp
qed

lemma frozen_to_resizing_via_idle:
  assumes run: "runStates s0 fs = Some rs"
    and ij: "i < j" "j < length rs"
    and fi: "stateRef (fst (rs ! i)) = FROZEN"
    and rj: "stateRef (fst (rs ! j)) = RESIZING"
  shows "\<exists>k. i < k \<and> k < j \<and> stateRef (fst (rs ! k)) = IDLE"
proof (rule ccontr)
  assume no: "\<not> (\<exists>k. i < k \<and> k < j \<and> stateRef (fst (rs ! k)) = IDLE)"
  have stay: "m < j \<Longrightarrow> i \<le> m \<Longrightarrow> stateRef (fst (rs ! m)) = FROZEN" for m
  proof (induction m)
    case 0
    then show ?case using fi by simp
  next
    case (Suc m)
    show ?case
    proof (cases "i = Suc m")
      case True
      then show ?thesis using fi by simp
    next
      case False
      with Suc.prems have im: "i \<le> m" and mj: "m < j" by simp_all
      from Suc.IH [OF mj im] have fm: "stateRef (fst (rs ! m)) = FROZEN" .
      from Suc.prems ij have "Suc m < length rs" by simp
      from runStates_step [OF run this]
      have "onResults (fst (rs ! m)) (fs ! Suc m) = Some (fst (rs ! Suc m), snd (rs ! Suc m))"
        by simp
      from frozen_successor [OF this fm] no Suc.prems im
      show ?thesis by (auto simp add: less_Suc_eq_le)
    qed
  qed
  obtain m where m: "j = Suc m" using ij(1) by (cases j) simp_all
  with ij have "m < j" "i \<le> m" by simp_all
  from stay [OF this] have fm: "stateRef (fst (rs ! m)) = FROZEN" .
  from runStates_step [OF run] ij(2) m
  have "onResults (fst (rs ! m)) (fs ! j) = Some (fst (rs ! j), snd (rs ! j))" by simp
  from frozen_successor [OF this fm] rj show False by simp
qed

end
